theory Spec2Isabelle
  imports Main "HOL-Library.Word"
begin

unbundle bit_operations_syntax

section \<open>The arena: bytes, words and pointers\<close>

text \<open>
  \<^verbatim>\<open>mm.c\<close> manages one arena of raw bytes.  Addresses are 64-bit (the two links of
  \<^verbatim>\<open>struct linkedlist\<close> fill the 16 bytes that the minimum block size 24 leaves beside the
  8 bytes of header and footer), boundary tags are \<^verbatim>\<open>uint32_t\<close>, and multi-byte values are
  stored little-endian.  The null pointer is address 0.
\<close>

type_synonym addr = "64 word"
type_synonym byte = "8 word"
type_synonym u32 = "32 word"

text \<open>
  The globals of \<^verbatim>\<open>mm.c\<close> (\<^verbatim>\<open>firstlist\<close>, \<^verbatim>\<open>heap_listp\<close>), the arena contents, and the two
  variables of the arena-growth primitive: the current break and the arena limit.
\<close>

record heap_state =
  mem :: "addr \<Rightarrow> byte"
  firstlist :: addr
  heap_listp :: addr
  mem_brk :: addr
  mem_max_addr :: addr

definition WSIZE :: u32 where "WSIZE = 4"
definition DSIZE :: u32 where "DSIZE = 8"
definition CHUNKSIZE :: u32 where "CHUNKSIZE = 4096"
definition OVERHEAD :: u32 where "OVERHEAD = 8"

text \<open>\<^verbatim>\<open>static inline int MAX(int x, int y)\<close>: the comparison is on signed ints.\<close>

definition MAX_int :: "u32 \<Rightarrow> u32 \<Rightarrow> u32" where
  "MAX_int x y = (if sint x > sint y then x else y)"

definition PACK :: "u32 \<Rightarrow> u32 \<Rightarrow> u32" where
  "PACK sz alloc = sz OR (alloc AND 1)"

definition GET :: "heap_state \<Rightarrow> addr \<Rightarrow> u32" where
  "GET s p = ucast (mem s p)
             OR push_bit 8 (ucast (mem s (p + 1)))
             OR push_bit 16 (ucast (mem s (p + 2)))
             OR push_bit 24 (ucast (mem s (p + 3)))"

definition PUT :: "heap_state \<Rightarrow> addr \<Rightarrow> u32 \<Rightarrow> heap_state" where
  "PUT s p val = s\<lparr>mem := (mem s)
       (p := ucast val,
        p + 1 := ucast (drop_bit 8 val),
        p + 2 := ucast (drop_bit 16 val),
        p + 3 := ucast (drop_bit 24 val))\<rparr>"

definition GET_SIZE :: "heap_state \<Rightarrow> addr \<Rightarrow> u32" where
  "GET_SIZE s p = GET s p AND NOT 7"

definition GET_ALLOC :: "heap_state \<Rightarrow> addr \<Rightarrow> u32" where
  "GET_ALLOC s p = GET s p AND 1"

definition HDRP :: "addr \<Rightarrow> addr" where
  "HDRP bp = bp - 4"

definition FTRP :: "heap_state \<Rightarrow> addr \<Rightarrow> addr" where
  "FTRP s bp = bp + ucast (GET_SIZE s (HDRP bp)) - 8"

definition NEXT_BLKP :: "heap_state \<Rightarrow> addr \<Rightarrow> addr" where
  "NEXT_BLKP s bp = bp + ucast (GET_SIZE s (bp - 4))"

definition PREV_BLKP :: "heap_state \<Rightarrow> addr \<Rightarrow> addr" where
  "PREV_BLKP s bp = bp - ucast (GET_SIZE s (bp - 8))"

text \<open>
  A \<^verbatim>\<open>linkedlist\<close> node overlays the payload of a free block: \<^verbatim>\<open>prev\<close> in bytes 0..7,
  \<^verbatim>\<open>next\<close> in bytes 8..15.
\<close>

definition load_ptr :: "heap_state \<Rightarrow> addr \<Rightarrow> addr" where
  "load_ptr s p = ucast (mem s p)
             OR push_bit 8 (ucast (mem s (p + 1)))
             OR push_bit 16 (ucast (mem s (p + 2)))
             OR push_bit 24 (ucast (mem s (p + 3)))
             OR push_bit 32 (ucast (mem s (p + 4)))
             OR push_bit 40 (ucast (mem s (p + 5)))
             OR push_bit 48 (ucast (mem s (p + 6)))
             OR push_bit 56 (ucast (mem s (p + 7)))"

definition store_ptr :: "heap_state \<Rightarrow> addr \<Rightarrow> addr \<Rightarrow> heap_state" where
  "store_ptr s p val = s\<lparr>mem := (mem s)
       (p := ucast val,
        p + 1 := ucast (drop_bit 8 val),
        p + 2 := ucast (drop_bit 16 val),
        p + 3 := ucast (drop_bit 24 val),
        p + 4 := ucast (drop_bit 32 val),
        p + 5 := ucast (drop_bit 40 val),
        p + 6 := ucast (drop_bit 48 val),
        p + 7 := ucast (drop_bit 56 val))\<rparr>"

definition get_prev :: "heap_state \<Rightarrow> addr \<Rightarrow> addr" where
  "get_prev s bp = load_ptr s bp"

definition get_next :: "heap_state \<Rightarrow> addr \<Rightarrow> addr" where
  "get_next s bp = load_ptr s (bp + 8)"

definition set_prev :: "heap_state \<Rightarrow> addr \<Rightarrow> addr \<Rightarrow> heap_state" where
  "set_prev s bp v = store_ptr s bp v"

definition set_next :: "heap_state \<Rightarrow> addr \<Rightarrow> addr \<Rightarrow> heap_state" where
  "set_next s bp v = store_ptr s (bp + 8) v"

text \<open>\<^verbatim>\<open>memcpy(dst, src, n)\<close>: byte \<open>i\<close> of the destination receives byte \<open>i\<close> of the source.\<close>

fun memcpy_bytes :: "(addr \<Rightarrow> byte) \<Rightarrow> (addr \<Rightarrow> byte) \<Rightarrow> addr \<Rightarrow> addr \<Rightarrow> nat \<Rightarrow> (addr \<Rightarrow> byte)" where
  "memcpy_bytes src_mem m dst src 0 = m"
| "memcpy_bytes src_mem m dst src (Suc n) =
     (memcpy_bytes src_mem m dst src n)(dst + of_nat n := src_mem (src + of_nat n))"

definition memcpy :: "heap_state \<Rightarrow> addr \<Rightarrow> addr \<Rightarrow> u32 \<Rightarrow> heap_state" where
  "memcpy s dst src n = s\<lparr>mem := memcpy_bytes (mem s) (mem s) dst src (unat n)\<rparr>"

section \<open>The arena-growth primitive\<close>

text \<open>
  Modelled from the spec: \<^verbatim>\<open>mem_sbrk\<close> of \<^verbatim>\<open>memlib\<close> is not among the sources.  The spec's
  \<^verbatim>\<open>extend(byteCount)\<close> appends \<^verbatim>\<open>byteCount\<close> bytes to the end of the arena and returns the
  base of the new region (the old break); it never moves or shrinks existing memory, and
  signals failure (the pointer \<^verbatim>\<open>(void *)-1\<close>) when the arena cannot grow further.
\<close>

definition mem_sbrk :: "heap_state \<Rightarrow> u32 \<Rightarrow> heap_state \<times> addr" where
  "mem_sbrk s incr =
     (if unat (mem_brk s) + unat incr \<le> unat (mem_max_addr s)
      then (s\<lparr>mem_brk := mem_brk s + ucast incr\<rparr>, mem_brk s)
      else (s, - 1))"

section \<open>The free-block index\<close>

text \<open>\<^verbatim>\<open>listInsert\<close> (mm.c:401-421).\<close>

definition listInsert :: "heap_state \<Rightarrow> addr \<Rightarrow> heap_state" where
  "listInsert s bp =
     (if GET_ALLOC s (HDRP bp) \<noteq> 0 then s
      else if firstlist s = 0 then
        (let s1 = s\<lparr>firstlist := bp\<rparr>;
             s2 = set_next s1 bp 0;
             s3 = set_prev s2 bp 0
         in s3)
      else
        (let s1 = set_prev s bp (get_prev s (firstlist s));
             s2 = set_next s1 bp (firstlist s1);
             s3 = set_prev s2 (firstlist s2) bp;
             s4 = s3\<lparr>firstlist := bp\<rparr>
         in s4))"

text \<open>\<^verbatim>\<open>listRemove\<close> (mm.c:424-451).\<close>

definition listRemove :: "heap_state \<Rightarrow> addr \<Rightarrow> heap_state" where
  "listRemove s bp =
     (if GET_SIZE s (HDRP bp) = 0 then PUT s (HDRP bp) (PACK 0 1)
      else if get_next s bp = 0 \<and> get_prev s bp = 0 then s\<lparr>firstlist := 0\<rparr>
      else if get_prev s bp = 0 \<and> get_next s bp \<noteq> 0 then
        (let s1 = s\<lparr>firstlist := get_next s bp\<rparr>;
             s2 = set_prev s1 (firstlist s1) 0
         in s2)
      else if get_prev s bp \<noteq> 0 \<and> get_next s bp = 0 then
        set_next s (get_prev s bp) 0
      else if get_prev s bp \<noteq> 0 \<and> get_next s bp \<noteq> 0 then
        (let s1 = set_next s (get_prev s bp) (get_next s bp);
             s2 = set_prev s1 (get_next s1 bp) (get_prev s1 bp);
             s3 = set_prev s2 bp 0;
             s4 = set_next s3 bp 0
         in s4)
      else s)"

section \<open>Coalescing, extension, fit selection\<close>

text \<open>
  \<^verbatim>\<open>coalesce\<close> (mm.c:233-276).  Its locals \<^verbatim>\<open>prev_alloc\<close>, \<^verbatim>\<open>next_alloc\<close> and \<^verbatim>\<open>size\<close> are
  \<^verbatim>\<open>size_t\<close>; \<^verbatim>\<open>PACK\<close> truncates \<^verbatim>\<open>size\<close> to 32 bits again.  The four guards are exhaustive,
  so the \<^verbatim>\<open>printf\<close> after them is never reached.
\<close>

definition coalesce :: "heap_state \<Rightarrow> addr \<Rightarrow> heap_state \<times> addr" where
  "coalesce s bp =
     (let prev_alloc = (ucast (GET_ALLOC s (FTRP s (PREV_BLKP s bp))) :: 64 word);
          next_alloc = (ucast (GET_ALLOC s (HDRP (NEXT_BLKP s bp))) :: 64 word);
          sz = (ucast (GET_SIZE s (HDRP bp)) :: 64 word)
      in
      if prev_alloc \<noteq> 0 \<and> next_alloc \<noteq> 0 then
        (listInsert s bp, bp)
      else if prev_alloc \<noteq> 0 \<and> next_alloc = 0 then
        (let sz = sz + ucast (GET_SIZE s (HDRP (NEXT_BLKP s bp)));
             s1 = listRemove s (NEXT_BLKP s bp);
             s2 = PUT s1 (HDRP bp) (PACK (ucast sz) 0);
             s3 = PUT s2 (FTRP s2 bp) (PACK (ucast sz) 0);
             s4 = listInsert s3 bp
         in (s4, bp))
      else if prev_alloc = 0 \<and> next_alloc \<noteq> 0 then
        (let sz = sz + ucast (GET_SIZE s (HDRP (PREV_BLKP s bp)));
             bp = PREV_BLKP s bp;
             s1 = PUT s (HDRP bp) (PACK (ucast sz) 0);
             s2 = PUT s1 (FTRP s1 bp) (PACK (ucast sz) 0)
         in (s2, bp))
      else
        (let sz = sz + ucast (GET_SIZE s (HDRP (PREV_BLKP s bp)))
                     + ucast (GET_SIZE s (FTRP s (NEXT_BLKP s bp)));
             s1 = listRemove s (NEXT_BLKP s bp);
             s2 = listRemove s1 (PREV_BLKP s1 bp);
             bp = PREV_BLKP s2 bp;
             s3 = listInsert s2 bp;
             s4 = PUT s3 (HDRP bp) (PACK (ucast sz) 0);
             s5 = PUT s4 (FTRP s4 bp) (PACK (ucast sz) 0)
         in (s5, bp)))"

text \<open>\<^verbatim>\<open>extend_heap\<close> (mm.c:170-183); the null result is address 0.\<close>

definition extend_heap :: "heap_state \<Rightarrow> u32 \<Rightarrow> heap_state \<times> addr" where
  "extend_heap s words =
     (let sz = (if words mod 2 \<noteq> 0 then (words + 1) * WSIZE else words * WSIZE);
          (s1, bp) = mem_sbrk s sz
      in
      if bp = - 1 then (s1, 0)
      else
        (let s2 = PUT s1 (HDRP bp) (PACK sz 0);
             s3 = PUT s2 (FTRP s2 bp) (PACK sz 0);
             s4 = PUT s3 (HDRP (NEXT_BLKP s3 bp)) (PACK 0 1)
         in coalesce s4 bp))"

text \<open>\<^verbatim>\<open>mm_init\<close> (mm.c:148-165); the second component is the returned int.\<close>

definition mm_init :: "heap_state \<Rightarrow> heap_state \<times> int" where
  "mm_init s =
     (let s0 = s\<lparr>firstlist := 0\<rparr>;
          (s1, p) = mem_sbrk s0 (4 * WSIZE);
          s2 = s1\<lparr>heap_listp := p\<rparr>
      in
      if p = - 1 then (s2, - 1)
      else
        (let s3 = PUT s2 (heap_listp s2) 0;
             s4 = PUT s3 (heap_listp s3 + ucast WSIZE) (PACK DSIZE 1);
             s5 = PUT s4 (heap_listp s4 + ucast (2 * WSIZE)) (PACK DSIZE 1);
             s6 = PUT s5 (heap_listp s5 + ucast (3 * WSIZE)) (PACK 0 1);
             s7 = s6\<lparr>heap_listp := heap_listp s6 + ucast (2 * WSIZE)\<rparr>;
             (s8, bp) = extend_heap s7 (CHUNKSIZE div WSIZE)
         in if bp = 0 then (s8, - 1) else (s8, 0)))"

text \<open>
  \<^verbatim>\<open>find_fit\<close> (mm.c:190-212).  The \<^verbatim>\<open>for\<close> loop follows \<^verbatim>\<open>next\<close> links until it meets the null
  pointer; on a cyclic index it never ends, which is the value \<open>None\<close>.
\<close>

partial_function (option) find_fit_loop ::
  "heap_state \<Rightarrow> u32 \<Rightarrow> addr \<Rightarrow> addr \<Rightarrow> u32 \<Rightarrow> addr option" where
  "find_fit_loop s asize bp best best_size =
     (if bp = 0 then Some (if best_size = 2147483648 then 0 else best)
      else if GET_SIZE s (HDRP bp) = asize then Some bp
      else if GET_SIZE s (HDRP bp) < best_size \<and> GET_SIZE s (HDRP bp) > asize
        then find_fit_loop s asize (get_next s bp) bp (GET_SIZE s (HDRP bp))
        else find_fit_loop s asize (get_next s bp) best best_size)"

definition find_fit :: "heap_state \<Rightarrow> u32 \<Rightarrow> addr option" where
  "find_fit s asize = find_fit_loop s asize (firstlist s) 0 2147483648"

section \<open>Placement, allocate, free, reallocate\<close>

text \<open>
  \<^verbatim>\<open>place\<close> (mm.c:330-351).  In the split branch the first two \<^verbatim>\<open>PUT\<close>s come before
  \<^verbatim>\<open>listRemove\<close>; \<open>place_mark\<close> is the state in which \<^verbatim>\<open>listRemove\<close> is called.
\<close>

definition place_mark :: "heap_state \<Rightarrow> addr \<Rightarrow> u32 \<Rightarrow> heap_state" where
  "place_mark s bp asize =
     (let s1 = PUT s (HDRP bp) (PACK asize 1);
          s2 = PUT s1 (FTRP s1 bp) (PACK asize 1)
      in s2)"

definition place :: "heap_state \<Rightarrow> addr \<Rightarrow> u32 \<Rightarrow> heap_state" where
  "place s bp asize =
     (let csize = GET_SIZE s (HDRP bp) in
      if csize - asize \<ge> 24 then
        (let s2 = place_mark s bp asize;
             s3 = listRemove s2 bp;
             bp = NEXT_BLKP s3 bp;
             s4 = PUT s3 (HDRP bp) (PACK (csize - asize) 0);
             s5 = PUT s4 (FTRP s4 bp) (PACK (csize - asize) 0);
             s6 = listInsert s5 bp
         in s6)
      else
        (let s1 = PUT s (HDRP bp) (PACK csize 1);
             s2 = PUT s1 (FTRP s1 bp) (PACK csize 1);
             s3 = listRemove s2 bp
         in s3))"

text \<open>The size normalisation at the head of \<^verbatim>\<open>mm_malloc\<close> (mm.c:287-308), for a non-zero \<^verbatim>\<open>size\<close>.\<close>

definition adjust_size :: "u32 \<Rightarrow> u32" where
  "adjust_size sz =
     (let sz = (if sz = 448 then 512
                else if sz = 112 then 128
                else if sz \<le> DSIZE then 2 * DSIZE
                else if sz mod DSIZE \<noteq> 0 then (sz div DSIZE + 1) * DSIZE
                else sz)
      in sz + DSIZE)"

text \<open>
  \<^verbatim>\<open>mm_malloc\<close> (mm.c:281-321).  \<open>None\<close>: the call does not return (\<^verbatim>\<open>find_fit\<close> loops).
\<close>

definition mm_malloc :: "heap_state \<Rightarrow> u32 \<Rightarrow> (heap_state \<times> addr) option" where
  "mm_malloc s sz =
     (if sz = 0 then Some (s, 0)
      else
        (let asize = adjust_size sz in
         case find_fit s asize of
           None \<Rightarrow> None
         | Some bp \<Rightarrow>
             if bp \<noteq> 0 then Some (place s bp asize, bp)
             else
               (let extendsize = MAX_int asize CHUNKSIZE;
                    (s1, bp) = extend_heap s (extendsize div WSIZE)
                in if bp = 0 then Some (s1, 0)
                   else Some (place s1 bp asize, bp))))"

text \<open>\<^verbatim>\<open>mm_free\<close> (mm.c:217-228).\<close>

definition mm_free :: "heap_state \<Rightarrow> addr \<Rightarrow> heap_state" where
  "mm_free s bp =
     (if bp = 0 then s
      else
        (let sz = GET_SIZE s (HDRP bp);
             s1 = PUT s (HDRP bp) (PACK sz 0);
             s2 = PUT s1 (FTRP s1 bp) (PACK sz 0)
         in fst (coalesce s2 bp)))"

text \<open>
  \<^verbatim>\<open>mm_realloc\<close> (mm.c:357-398).  The call returns a state and a pointer, or ends the process
  with \<^verbatim>\<open>exit(1)\<close> when the fallback \<^verbatim>\<open>mm_malloc\<close> yields null, or does not return.
\<close>

datatype 'a outcome = Returns 'a | Exits int | Diverges

definition mm_realloc :: "heap_state \<Rightarrow> addr \<Rightarrow> u32 \<Rightarrow> (heap_state \<times> addr) outcome" where
  "mm_realloc s ptr sz =
     (let next_alloc = GET_ALLOC s (HDRP (NEXT_BLKP s ptr));
          next_size = GET_SIZE s (HDRP (NEXT_BLKP s ptr));
          curr_size = GET_SIZE s (HDRP ptr);
          combine_size = curr_size + next_size;
          asize = sz + DSIZE
      in
      if curr_size > asize then Returns (s, ptr)
      else if next_alloc = 0 \<and> combine_size \<ge> asize then
        (let s1 = listRemove s (NEXT_BLKP s ptr);
             s2 = PUT s1 (HDRP ptr) (PACK combine_size 1);
             s3 = PUT s2 (FTRP s2 ptr) (PACK combine_size 1)
         in Returns (s3, ptr))
      else
        (case mm_malloc s sz of
           None \<Rightarrow> Diverges
         | Some (s1, newp) \<Rightarrow>
             if newp = 0 then Exits 1
             else
               (let copySize = GET_SIZE s1 (HDRP ptr);
                    copySize = (if sz < copySize then sz else copySize);
                    s2 = memcpy s1 newp ptr copySize;
                    s3 = mm_free s2 ptr
                in Returns (s3, newp))))"

section \<open>A fresh arena\<close>

text \<open>
  An arena of 20 MiB of zero bytes at address \<open>0x100000\<close>, before \<^verbatim>\<open>mm_init\<close>.
\<close>

definition arena0 :: heap_state where
  "arena0 = \<lparr>mem = (\<lambda>_. 0), firstlist = 0, heap_listp = 0,
             mem_brk = 0x100000, mem_max_addr = 0x1500000\<rparr>"

text \<open>The same arena with room for 8 GiB.\<close>

definition arena_big :: heap_state where
  "arena_big = arena0\<lparr>mem_max_addr := 0x200000000\<rparr>"

section \<open>The index as a list\<close>

text \<open>
  \<open>index_path s p xs\<close>: following \<^verbatim>\<open>next\<close> links from \<open>p\<close> visits exactly the nodes \<open>xs\<close>
  and then reaches the null pointer.
\<close>

fun index_path :: "heap_state \<Rightarrow> addr \<Rightarrow> addr list \<Rightarrow> bool" where
  "index_path s p [] = (p = 0)"
| "index_path s p (x # xs) = (p \<noteq> 0 \<and> p = x \<and> index_path s (get_next s x) xs)"

text \<open>
  The loop of \<^verbatim>\<open>find_fit\<close> read as a function of the list of nodes it visits, \<open>f\<close> giving
  the size recorded in a node's header.
\<close>

fun fit_scan :: "(addr \<Rightarrow> u32) \<Rightarrow> u32 \<Rightarrow> addr list \<Rightarrow> addr \<Rightarrow> u32 \<Rightarrow> addr" where
  "fit_scan f asize [] best best_size = (if best_size = 2147483648 then 0 else best)"
| "fit_scan f asize (x # xs) best best_size =
     (if f x = asize then x
      else if f x < best_size \<and> f x > asize then fit_scan f asize xs x (f x)
      else fit_scan f asize xs best best_size)"

section \<open>Concrete heaps\<close>

text \<open>
  The heaps that the operations build from the fresh arena, written as the sequence of
  stores each operation performs on the heap before it.  \<open>heap1\<close> is the heap after
  \<^verbatim>\<open>mm_init\<close>; \<open>heap2\<close>, \<open>heap3\<close> and \<open>heap4\<close> follow one, two and three calls
  \<^verbatim>\<open>mm_malloc(16)\<close>, which return \<open>0x100010\<close>, \<open>0x100028\<close> and \<open>0x100040\<close>.
\<close>

definition heap1 :: heap_state where
  "heap1 = store_ptr (store_ptr
     ((PUT (PUT (PUT
        ((PUT (PUT (PUT (PUT
           (arena0\<lparr>firstlist := 0, mem_brk := 0x100010, heap_listp := 0x100000\<rparr>)
           0x100000 0) 0x100004 9) 0x100008 9) 0x10000C 1)
         \<lparr>heap_listp := 0x100008, mem_brk := 0x101010\<rparr>)
        0x10000C 4096) 0x101008 4096) 0x10100C 1)
      \<lparr>firstlist := 0x100010\<rparr>)
     0x100018 0) 0x100010 0"

definition heap2 :: heap_state where
  "heap2 = store_ptr (store_ptr
     ((PUT (PUT ((PUT (PUT heap1 0x10000C 25) 0x100020 25)\<lparr>firstlist := 0\<rparr>)
        0x100024 4072) 0x101008 4072)
      \<lparr>firstlist := 0x100028\<rparr>)
     0x100030 0) 0x100028 0"

definition heap3 :: heap_state where
  "heap3 = store_ptr (store_ptr
     ((PUT (PUT ((PUT (PUT heap2 0x100024 25) 0x100038 25)\<lparr>firstlist := 0\<rparr>)
        0x10003C 4048) 0x101008 4048)
      \<lparr>firstlist := 0x100040\<rparr>)
     0x100048 0) 0x100040 0"

definition heap4 :: heap_state where
  "heap4 = store_ptr (store_ptr
     ((PUT (PUT ((PUT (PUT heap3 0x10003C 25) 0x100050 25)\<lparr>firstlist := 0\<rparr>)
        0x100054 4024) 0x101008 4024)
      \<lparr>firstlist := 0x100058\<rparr>)
     0x100060 0) 0x100058 0"

text \<open>
  \<open>heap2u\<close>: the caller has stored the address \<open>0x100018\<close> (a pointer into its own block)
  in the first eight bytes of the payload at \<open>0x100010\<close> of \<open>heap2\<close>.
\<close>

definition heap2u :: heap_state where
  "heap2u = store_ptr heap2 0x100010 0x100018"

text \<open>The heap after \<^verbatim>\<open>mm_init\<close> on the large arena.\<close>

definition big1 :: heap_state where
  "big1 = store_ptr (store_ptr
     ((PUT (PUT (PUT
        ((PUT (PUT (PUT (PUT
           (arena_big\<lparr>firstlist := 0, mem_brk := 0x100010, heap_listp := 0x100000\<rparr>)
           0x100000 0) 0x100004 9) 0x100008 9) 0x10000C 1)
         \<lparr>heap_listp := 0x100008, mem_brk := 0x101010\<rparr>)
        0x10000C 4096) 0x101008 4096) 0x10100C 1)
      \<lparr>firstlist := 0x100010\<rparr>)
     0x100018 0) 0x100010 0"


text \<open>
  \<open>heap5\<close> is \<open>heap4\<close> after \<^verbatim>\<open>mm_free(0x100010)\<close>; \<open>heap5m\<close> is \<open>heap5\<close> with the block at
  \<open>0x100028\<close> marked free in its header and footer, as \<^verbatim>\<open>mm_free\<close> leaves it when it calls
  \<^verbatim>\<open>coalesce\<close>.
\<close>

definition heap5 :: heap_state where
  "heap5 = (store_ptr (store_ptr (store_ptr
      (PUT (PUT heap4 0x10000C 24) 0x100020 24)
      0x100010 0) 0x100018 0x100058) 0x100058 0x100010)\<lparr>firstlist := 0x100010\<rparr>"

definition heap5m :: heap_state where
  "heap5m = PUT (PUT heap5 0x100024 24) 0x100038 24"

text \<open>
  \<open>heap1w\<close> is \<open>heap1\<close> after \<^verbatim>\<open>mm_malloc(0xFFFFFFF8)\<close>, \<open>heap2w\<close> is \<open>heap2u\<close> after
  \<^verbatim>\<open>mm_malloc(0xFFFFFFF7)\<close>.
\<close>

definition heap1w :: heap_state where
  "heap1w = (store_ptr (store_ptr (store_ptr
      (PUT (PUT (PUT (PUT (PUT heap1 0x10000C 1) 0x100008 1) 0x10000C 1) 0x10000C 4096)
         0x101008 4096)
      0x100010 0) 0x100018 0x100010) 0x100010 0x100010)\<lparr>firstlist := 0x100010\<rparr>"

definition heap2w :: heap_state where
  "heap2w = (store_ptr (store_ptr (store_ptr
      (PUT (PUT (PUT (PUT (PUT heap2u 0x100024 1) 0x100020 1) 0x100024 1) 0x100024 4072)
         0x101008 4072)
      0x100028 0) 0x100030 0x100028) 0x100028 0x100028)\<lparr>firstlist := 0x100028\<rparr>"

text \<open>
  \<open>big2\<close> is \<open>big1\<close> after \<^verbatim>\<open>mm_malloc(0x7FFFFFF0)\<close>, which returns \<open>0x100010\<close>; \<open>big3\<close> is
  \<open>big2\<close> after \<^verbatim>\<open>mm_free(0x100010)\<close>.
\<close>

definition big2 :: heap_state where
  "big2 = store_ptr (store_ptr
     ((PUT (PUT
        ((PUT (PUT (PUT (PUT (PUT (PUT (PUT
           (big1\<lparr>mem_brk := 0x80101008\<rparr>)
           0x10100C 0x7FFFFFF8) 0x80101000 0x7FFFFFF8) 0x80101004 1)
           0x10000C 0x80000FF8) 0x80101000 0x80000FF8)
           0x10000C 0x7FFFFFF9) 0x80100000 0x7FFFFFF9)
         \<lparr>firstlist := 0\<rparr>)
        0x80100004 4096) 0x80101000 4096)
      \<lparr>firstlist := 0x80100008\<rparr>)
     0x80100010 0) 0x80100008 0"

definition big3 :: heap_state where
  "big3 = store_ptr (store_ptr
     ((PUT (PUT
        ((PUT (PUT big2 0x10000C 0x7FFFFFF8) 0x80100000 0x7FFFFFF8)\<lparr>firstlist := 0\<rparr>)
        0x10000C 0x80000FF8) 0x80101000 0x80000FF8)
      \<lparr>firstlist := 0x100010\<rparr>)
     0x100018 0) 0x100010 0"

text \<open>\<open>heap1x\<close> is \<open>heap1w\<close> after \<^verbatim>\<open>mm_malloc(4088)\<close>, which returns \<open>0x100010\<close> again.\<close>

definition heap1x :: heap_state where
  "heap1x = store_ptr (store_ptr (store_ptr (store_ptr
        (PUT (PUT heap1w 0x10000C 4097) 0x101008 4097)
        0x100018 0x100010) 0x100010 0x100010) 0x100010 0) 0x100018 0"

text \<open>
  \<open>heap2m\<close> is \<open>heap2w\<close> after the \<^verbatim>\<open>memcpy\<close> of \<^verbatim>\<open>mm_realloc\<close>; \<open>heap2z\<close> is \<open>heap2m\<close> after
  \<^verbatim>\<open>mm_free(0x100010)\<close>.
\<close>

definition heap2m :: heap_state where
  "heap2m = memcpy heap2w 0x100028 0x100010 24"

definition heap2z :: heap_state where
  "heap2z = (store_ptr (store_ptr (store_ptr
      (PUT (PUT
         (store_ptr (PUT (PUT heap2m 0x10000C 24) 0x100020 24) 0x100020 0)
         0x10000C 4096) 0x101008 4096)
      0x100010 0x100018) 0x100018 0x100028) 0x100028 0x100010)\<lparr>firstlist := 0x100010\<rparr>"

text \<open>
  \<open>heap6\<close> is \<open>heap4\<close> after \<^verbatim>\<open>mm_free(0x100028)\<close>; \<open>heap7\<close> is \<open>heap6\<close> after
  \<^verbatim>\<open>mm_malloc(0xFFFFFFF8)\<close>, which returns \<open>0x100028\<close>; \<open>heap8\<close> is \<open>heap7\<close> after
  \<^verbatim>\<open>mm_free(0x100028)\<close>.
\<close>

definition heap6 :: heap_state where
  "heap6 = (store_ptr (store_ptr (store_ptr
      (PUT (PUT heap4 0x100024 24) 0x100038 24)
      0x100028 0) 0x100030 0x100058) 0x100058 0x100028)\<lparr>firstlist := 0x100028\<rparr>"

definition heap7 :: heap_state where
  "heap7 = (store_ptr (store_ptr (store_ptr
      (PUT (PUT (PUT (PUT (PUT heap6 0x100024 1) 0x100020 1) 0x100024 1) 0x100024 24)
         0x100038 24)
      0x100028 0) 0x100030 0x100028) 0x100028 0x100028)\<lparr>firstlist := 0x100028\<rparr>"

definition heap8 :: heap_state where
  "heap8 = PUT (PUT (PUT (PUT heap7 0x100024 24) 0x100038 24) 0x100024 48) 0x100050 48"

section \<open>Reading after writing\<close>

text \<open>
  A word is the little-endian join of its bytes, so a read returns what the last write to
  the same address stored, and a write leaves every location at distance at least its
  width untouched.  Distances are taken modulo \<open>2 ^ 64\<close>, as pointer arithmetic is.
\<close>

lemma bytes4_join:
  fixes v :: u32
  shows "ucast (ucast v :: byte) OR push_bit 8 (ucast (ucast (drop_bit 8 v) :: byte))
       OR push_bit 16 (ucast (ucast (drop_bit 16 v) :: byte))
       OR push_bit 24 (ucast (ucast (drop_bit 24 v) :: byte)) = v" (is "?l = v")
proof (rule bit_word_eqI)
  fix n assume "n < LENGTH(32)"
  then have n: "n < 32" by simp
  consider "n < 8" | "8 \<le> n" "n < 16" | "16 \<le> n" "n < 24" | "24 \<le> n" by linarith
  then show "bit ?l n = bit v n"
    using n by cases (auto simp add: bit_simps)
qed

lemma bytes8_join:
  fixes v :: addr
  shows "ucast (ucast v :: byte) OR push_bit 8 (ucast (ucast (drop_bit 8 v) :: byte))
       OR push_bit 16 (ucast (ucast (drop_bit 16 v) :: byte))
       OR push_bit 24 (ucast (ucast (drop_bit 24 v) :: byte))
       OR push_bit 32 (ucast (ucast (drop_bit 32 v) :: byte))
       OR push_bit 40 (ucast (ucast (drop_bit 40 v) :: byte))
       OR push_bit 48 (ucast (ucast (drop_bit 48 v) :: byte))
       OR push_bit 56 (ucast (ucast (drop_bit 56 v) :: byte)) = v" (is "?l = v")
proof (rule bit_word_eqI)
  fix n assume "n < LENGTH(64)"
  then have n: "n < 64" by simp
  consider "n < 8" | "8 \<le> n" "n < 16" | "16 \<le> n" "n < 24" | "24 \<le> n" "n < 32"
    | "32 \<le> n" "n < 40" | "40 \<le> n" "n < 48" | "48 \<le> n" "n < 56" | "56 \<le> n" by linarith
  then show "bit ?l n = bit v n"
    using n by cases (auto simp add: bit_simps)
qed

lemma lt4_cases: "(a::addr) < 4 \<Longrightarrow> a = 0 \<or> a = 1 \<or> a = 2 \<or> a = 3"
  by unat_arith

lemma lt8_cases: "(a::addr) < 8 \<Longrightarrow> a = 0 \<or> a = 1 \<or> a = 2 \<or> a = 3 \<or> a = 4 \<or> a = 5 \<or> a = 6 \<or> a = 7"
  by unat_arith

lemma outside4: "(4::addr) \<le> a - p \<longleftrightarrow> a \<noteq> p \<and> a \<noteq> p + 1 \<and> a \<noteq> p + 2 \<and> a \<noteq> p + 3"
proof -
  have e: "\<And>x. a = p + x \<longleftrightarrow> a - p = x" by auto
  have o: "\<not> (4::addr) \<le> 1" by (simp add: word_le_nat_alt)
  show ?thesis
    unfolding e using lt4_cases [of "a - p"] o by (auto simp: not_le [symmetric])
qed

lemma outside8: "(8::addr) \<le> a - p \<longleftrightarrow> a \<noteq> p \<and> a \<noteq> p + 1 \<and> a \<noteq> p + 2 \<and> a \<noteq> p + 3
    \<and> a \<noteq> p + 4 \<and> a \<noteq> p + 5 \<and> a \<noteq> p + 6 \<and> a \<noteq> p + 7"
proof -
  have e: "\<And>x. a = p + x \<longleftrightarrow> a - p = x" by auto
  have o: "\<not> (8::addr) \<le> 1" by (simp add: word_le_nat_alt)
  show ?thesis
    unfolding e using lt8_cases [of "a - p"] o by (auto simp: not_le [symmetric])
qed

lemma mem_PUT_other: "4 \<le> a - p \<Longrightarrow> mem (PUT s p v) a = mem s a"
  by (simp add: PUT_def outside4)

lemma mem_store_ptr_other: "8 \<le> a - p \<Longrightarrow> mem (store_ptr s p v) a = mem s a"
  by (simp add: store_ptr_def outside8)

lemma GET_cong_mem:
  "mem s' q = mem s q \<Longrightarrow> mem s' (q + 1) = mem s (q + 1) \<Longrightarrow> mem s' (q + 2) = mem s (q + 2)
   \<Longrightarrow> mem s' (q + 3) = mem s (q + 3) \<Longrightarrow> GET s' q = GET s q"
  by (simp add: GET_def)

lemma load_ptr_cong_mem:
  "mem s' q = mem s q \<Longrightarrow> mem s' (q + 1) = mem s (q + 1) \<Longrightarrow> mem s' (q + 2) = mem s (q + 2)
   \<Longrightarrow> mem s' (q + 3) = mem s (q + 3) \<Longrightarrow> mem s' (q + 4) = mem s (q + 4)
   \<Longrightarrow> mem s' (q + 5) = mem s (q + 5) \<Longrightarrow> mem s' (q + 6) = mem s (q + 6)
   \<Longrightarrow> mem s' (q + 7) = mem s (q + 7) \<Longrightarrow> load_ptr s' q = load_ptr s q"
  by (simp add: load_ptr_def)

lemma GET_PUT_same: "GET (PUT s p v) p = v"
  by (simp add: GET_def PUT_def bytes4_join)

lemma load_store_same: "load_ptr (store_ptr s p v) p = v"
  by (simp add: load_ptr_def store_ptr_def bytes8_join)

lemma GET_PUT_other: "4 \<le> q - p \<Longrightarrow> 4 \<le> p - q \<Longrightarrow> GET (PUT s p v) q = GET s q"
  apply (rule GET_cong_mem)
     apply (rule mem_PUT_other, assumption)
    apply (rule mem_PUT_other, unat_arith)
   apply (rule mem_PUT_other, unat_arith)
  apply (rule mem_PUT_other, unat_arith)
  done

lemma GET_store_other: "8 \<le> q - p \<Longrightarrow> 4 \<le> p - q \<Longrightarrow> GET (store_ptr s p v) q = GET s q"
  apply (rule GET_cong_mem)
     apply (rule mem_store_ptr_other, assumption)
    apply (rule mem_store_ptr_other, unat_arith)
   apply (rule mem_store_ptr_other, unat_arith)
  apply (rule mem_store_ptr_other, unat_arith)
  done

lemma load_PUT_other: "4 \<le> q - p \<Longrightarrow> 8 \<le> p - q \<Longrightarrow> load_ptr (PUT s p v) q = load_ptr s q"
  apply (rule load_ptr_cong_mem)
         apply (rule mem_PUT_other, assumption)
        apply (rule mem_PUT_other, unat_arith)
       apply (rule mem_PUT_other, unat_arith)
      apply (rule mem_PUT_other, unat_arith)
     apply (rule mem_PUT_other, unat_arith)
    apply (rule mem_PUT_other, unat_arith)
   apply (rule mem_PUT_other, unat_arith)
  apply (rule mem_PUT_other, unat_arith)
  done

lemma load_store_other: "8 \<le> q - p \<Longrightarrow> 8 \<le> p - q \<Longrightarrow> load_ptr (store_ptr s p v) q = load_ptr s q"
  apply (rule load_ptr_cong_mem)
         apply (rule mem_store_ptr_other, assumption)
        apply (rule mem_store_ptr_other, unat_arith)
       apply (rule mem_store_ptr_other, unat_arith)
      apply (rule mem_store_ptr_other, unat_arith)
     apply (rule mem_store_ptr_other, unat_arith)
    apply (rule mem_store_ptr_other, unat_arith)
   apply (rule mem_store_ptr_other, unat_arith)
  apply (rule mem_store_ptr_other, unat_arith)
  done

lemma fields_PUT [simp]:
  "firstlist (PUT s p v) = firstlist s" "heap_listp (PUT s p v) = heap_listp s"
  "mem_brk (PUT s p v) = mem_brk s" "mem_max_addr (PUT s p v) = mem_max_addr s"
  by (simp_all add: PUT_def)

lemma fields_store_ptr [simp]:
  "firstlist (store_ptr s p v) = firstlist s" "heap_listp (store_ptr s p v) = heap_listp s"
  "mem_brk (store_ptr s p v) = mem_brk s" "mem_max_addr (store_ptr s p v) = mem_max_addr s"
  by (simp_all add: store_ptr_def)

lemma GET_fields [simp]:
  "GET (s\<lparr>firstlist := a\<rparr>) p = GET s p" "GET (s\<lparr>heap_listp := a\<rparr>) p = GET s p"
  "GET (s\<lparr>mem_brk := a\<rparr>) p = GET s p" "GET (s\<lparr>mem_max_addr := a\<rparr>) p = GET s p"
  by (simp_all add: GET_def)

lemma load_ptr_fields [simp]:
  "load_ptr (s\<lparr>firstlist := a\<rparr>) p = load_ptr s p" "load_ptr (s\<lparr>heap_listp := a\<rparr>) p = load_ptr s p"
  "load_ptr (s\<lparr>mem_brk := a\<rparr>) p = load_ptr s p" "load_ptr (s\<lparr>mem_max_addr := a\<rparr>) p = load_ptr s p"
  by (simp_all add: load_ptr_def)

lemma arena0_fields [simp]:
  "firstlist arena0 = 0" "heap_listp arena0 = 0" "mem_brk arena0 = 0x100000" "mem_max_addr arena0 = 0x1500000"
  "GET arena0 p = 0" "load_ptr arena0 p = 0"
  by (simp_all add: arena0_def GET_def load_ptr_def)

text \<open>Bytes after \<^verbatim>\<open>memcpy\<close>: inside the destination they are the source's, elsewhere unchanged.\<close>

lemma mem_memcpy_bytes:
  "k \<le> 2 ^ 64 \<Longrightarrow> memcpy_bytes sm m dst src k a =
     (if unat (a - dst) < k then sm (src + (a - dst)) else m a)"
proof (induction k)
  case 0
  then show ?case by simp
next
  case (Suc k)
  then have k: "k < 2 ^ 64" by simp
  have uk: "unat (of_nat k :: addr) = k" using k by (simp add: unat_of_nat)
  show ?case
  proof (cases "a = dst + of_nat k")
    case True
    then have "a - dst = of_nat k" by simp
    then show ?thesis using True uk by simp
  next
    case False
    then have "a - dst \<noteq> of_nat k" by (metis add_diff_cancel_left' diff_add_cancel add.commute)
    then have "unat (a - dst) \<noteq> k" using uk by (auto simp: word_unat_eq_iff)
    then have "unat (a - dst) < Suc k \<longleftrightarrow> unat (a - dst) < k" by linarith
    then show ?thesis using False Suc.IH k by simp
  qed
qed

lemma unat_ucast_u32: "unat (ucast (n :: u32) :: addr) = unat n"
proof -
  have "unat n < 2 ^ 32" using unsigned_less [of n, where 'a=nat] by simp
  then have "unat n < 2 ^ 64" by simp
  then show ?thesis by (simp add: unsigned_ucast_eq take_bit_nat_eq_self)
qed

lemma mem_memcpy:
  "mem (memcpy s dst src n) a =
     (if a - dst < ucast n then mem s (src + (a - dst)) else mem s a)"
proof -
  have "unat n < 2 ^ 32" using unsigned_less [of n, where 'a=nat] by simp
  then have "unat n \<le> 2 ^ 64" by simp
  moreover have "a - dst < ucast n \<longleftrightarrow> unat (a - dst) < unat n"
    by (simp add: word_less_nat_alt unat_ucast_u32)
  ultimately show ?thesis by (simp add: memcpy_def mem_memcpy_bytes)
qed


lemma mc_in_0: "unat (q - dst) + k \<le> unat (m::addr) \<Longrightarrow> 0 < k \<Longrightarrow> q - dst < m"
  by (simp add: word_less_nat_alt)

lemma mc_in4_1: "unat (q - dst) + 4 \<le> unat (m::addr) \<Longrightarrow> q + 1 - dst < m" by unat_arith
lemma mc_in4_2: "unat (q - dst) + 4 \<le> unat (m::addr) \<Longrightarrow> q + 2 - dst < m" by unat_arith
lemma mc_in4_3: "unat (q - dst) + 4 \<le> unat (m::addr) \<Longrightarrow> q + 3 - dst < m" by unat_arith
lemma mc_in8_1: "unat (q - dst) + 8 \<le> unat (m::addr) \<Longrightarrow> q + 1 - dst < m" by unat_arith
lemma mc_in8_2: "unat (q - dst) + 8 \<le> unat (m::addr) \<Longrightarrow> q + 2 - dst < m" by unat_arith
lemma mc_in8_3: "unat (q - dst) + 8 \<le> unat (m::addr) \<Longrightarrow> q + 3 - dst < m" by unat_arith
lemma mc_in8_4: "unat (q - dst) + 8 \<le> unat (m::addr) \<Longrightarrow> q + 4 - dst < m" by unat_arith
lemma mc_in8_5: "unat (q - dst) + 8 \<le> unat (m::addr) \<Longrightarrow> q + 5 - dst < m" by unat_arith
lemma mc_in8_6: "unat (q - dst) + 8 \<le> unat (m::addr) \<Longrightarrow> q + 6 - dst < m" by unat_arith
lemma mc_in8_7: "unat (q - dst) + 8 \<le> unat (m::addr) \<Longrightarrow> q + 7 - dst < m" by unat_arith
lemma mc_out4_1: "(m::addr) \<le> q - dst \<Longrightarrow> 4 \<le> dst - q \<Longrightarrow> m \<le> q + 1 - dst" by unat_arith
lemma mc_out4_2: "(m::addr) \<le> q - dst \<Longrightarrow> 4 \<le> dst - q \<Longrightarrow> m \<le> q + 2 - dst" by unat_arith
lemma mc_out4_3: "(m::addr) \<le> q - dst \<Longrightarrow> 4 \<le> dst - q \<Longrightarrow> m \<le> q + 3 - dst" by unat_arith
lemma mc_out8_1: "(m::addr) \<le> q - dst \<Longrightarrow> 8 \<le> dst - q \<Longrightarrow> m \<le> q + 1 - dst" by unat_arith
lemma mc_out8_2: "(m::addr) \<le> q - dst \<Longrightarrow> 8 \<le> dst - q \<Longrightarrow> m \<le> q + 2 - dst" by unat_arith
lemma mc_out8_3: "(m::addr) \<le> q - dst \<Longrightarrow> 8 \<le> dst - q \<Longrightarrow> m \<le> q + 3 - dst" by unat_arith
lemma mc_out8_4: "(m::addr) \<le> q - dst \<Longrightarrow> 8 \<le> dst - q \<Longrightarrow> m \<le> q + 4 - dst" by unat_arith
lemma mc_out8_5: "(m::addr) \<le> q - dst \<Longrightarrow> 8 \<le> dst - q \<Longrightarrow> m \<le> q + 5 - dst" by unat_arith
lemma mc_out8_6: "(m::addr) \<le> q - dst \<Longrightarrow> 8 \<le> dst - q \<Longrightarrow> m \<le> q + 6 - dst" by unat_arith
lemma mc_out8_7: "(m::addr) \<le> q - dst \<Longrightarrow> 8 \<le> dst - q \<Longrightarrow> m \<le> q + 7 - dst" by unat_arith

lemma mem_memcpy_in:
  "a - dst < ucast n \<Longrightarrow> mem (memcpy s dst src n) a = mem s (src + (a - dst))"
  by (simp add: mem_memcpy)

lemma mem_memcpy_out:
  "ucast n \<le> a - dst \<Longrightarrow> mem (memcpy s dst src n) a = mem s a"
  by (simp add: mem_memcpy not_less [symmetric])

lemma GET_memcpy_in:
  assumes "unat (q - dst) + 4 \<le> unat n"
  shows "GET (memcpy s dst src n) q = GET s (src + (q - dst))"
proof -
  from assms have a: "unat (q - dst) + 4 \<le> unat (ucast n :: addr)" by (simp add: unat_ucast_u32)
  have "mem (memcpy s dst src n) q = mem s (src + (q - dst))"
    using mc_in_0 [OF a] by (simp add: mem_memcpy_in)
  moreover have "mem (memcpy s dst src n) (q + 1) = mem s (src + (q - dst) + 1)"
    using mc_in4_1 [OF a] by (simp add: mem_memcpy_in algebra_simps)
  moreover have "mem (memcpy s dst src n) (q + 2) = mem s (src + (q - dst) + 2)"
    using mc_in4_2 [OF a] by (simp add: mem_memcpy_in algebra_simps)
  moreover have "mem (memcpy s dst src n) (q + 3) = mem s (src + (q - dst) + 3)"
    using mc_in4_3 [OF a] by (simp add: mem_memcpy_in algebra_simps)
  ultimately show ?thesis by (simp add: GET_def)
qed

lemma GET_memcpy_out:
  assumes "ucast n \<le> q - dst" "4 \<le> dst - q"
  shows "GET (memcpy s dst src n) q = GET s q"
  apply (rule GET_cong_mem)
     apply (rule mem_memcpy_out, rule assms(1))
    apply (rule mem_memcpy_out, rule mc_out4_1 [OF assms])
   apply (rule mem_memcpy_out, rule mc_out4_2 [OF assms])
  apply (rule mem_memcpy_out, rule mc_out4_3 [OF assms])
  done

lemma load_memcpy_in:
  assumes "unat (q - dst) + 8 \<le> unat n"
  shows "load_ptr (memcpy s dst src n) q = load_ptr s (src + (q - dst))"
proof -
  from assms have a: "unat (q - dst) + 8 \<le> unat (ucast n :: addr)" by (simp add: unat_ucast_u32)
  have "mem (memcpy s dst src n) q = mem s (src + (q - dst))"
    using mc_in_0 [OF a] by (simp add: mem_memcpy_in)
  moreover have "mem (memcpy s dst src n) (q + 1) = mem s (src + (q - dst) + 1)"
    using mc_in8_1 [OF a] by (simp add: mem_memcpy_in algebra_simps)
  moreover have "mem (memcpy s dst src n) (q + 2) = mem s (src + (q - dst) + 2)"
    using mc_in8_2 [OF a] by (simp add: mem_memcpy_in algebra_simps)
  moreover have "mem (memcpy s dst src n) (q + 3) = mem s (src + (q - dst) + 3)"
    using mc_in8_3 [OF a] by (simp add: mem_memcpy_in algebra_simps)
  moreover have "mem (memcpy s dst src n) (q + 4) = mem s (src + (q - dst) + 4)"
    using mc_in8_4 [OF a] by (simp add: mem_memcpy_in algebra_simps)
  moreover have "mem (memcpy s dst src n) (q + 5) = mem s (src + (q - dst) + 5)"
    using mc_in8_5 [OF a] by (simp add: mem_memcpy_in algebra_simps)
  moreover have "mem (memcpy s dst src n) (q + 6) = mem s (src + (q - dst) + 6)"
    using mc_in8_6 [OF a] by (simp add: mem_memcpy_in algebra_simps)
  moreover have "mem (memcpy s dst src n) (q + 7) = mem s (src + (q - dst) + 7)"
    using mc_in8_7 [OF a] by (simp add: mem_memcpy_in algebra_simps)
  ultimately show ?thesis by (simp add: load_ptr_def)
qed

lemma load_memcpy_out:
  assumes "ucast n \<le> q - dst" "8 \<le> dst - q"
  shows "load_ptr (memcpy s dst src n) q = load_ptr s q"
  apply (rule load_ptr_cong_mem)
         apply (rule mem_memcpy_out, rule assms(1))
        apply (rule mem_memcpy_out, rule mc_out8_1 [OF assms])
       apply (rule mem_memcpy_out, rule mc_out8_2 [OF assms])
      apply (rule mem_memcpy_out, rule mc_out8_3 [OF assms])
     apply (rule mem_memcpy_out, rule mc_out8_4 [OF assms])
    apply (rule mem_memcpy_out, rule mc_out8_5 [OF assms])
   apply (rule mem_memcpy_out, rule mc_out8_6 [OF assms])
  apply (rule mem_memcpy_out, rule mc_out8_7 [OF assms])
  done

lemma fields_memcpy [simp]:
  "firstlist (memcpy s d r n) = firstlist s" "heap_listp (memcpy s d r n) = heap_listp s"
  "mem_brk (memcpy s d r n) = mem_brk s" "mem_max_addr (memcpy s d r n) = mem_max_addr s"
  by (simp_all add: memcpy_def)

section \<open>Running the code on concrete heaps\<close>

text \<open>
  The operations are run by rewriting: every read is resolved against the stores before
  it, down to the values recorded for the heap the operation started from.
\<close>

lemmas rw = GET_PUT_same load_store_same GET_PUT_other GET_store_other load_PUT_other
  load_store_other GET_memcpy_in GET_memcpy_out load_memcpy_in load_memcpy_out

lemmas opdefs0 = mm_init_def mem_sbrk_def GET_SIZE_def GET_ALLOC_def
  HDRP_def FTRP_def NEXT_BLKP_def PREV_BLKP_def PACK_def WSIZE_def DSIZE_def CHUNKSIZE_def
  extend_heap_def coalesce_def listInsert_def listRemove_def get_next_def get_prev_def
  set_next_def set_prev_def mm_free_def place_def place_mark_def
  find_fit_def MAX_int_def find_fit_loop.simps Let_def

lemmas opdefs = opdefs0 mm_malloc_def

lemma arena_big_fields [simp]:
  "firstlist arena_big = 0" "heap_listp arena_big = 0" "mem_brk arena_big = 0x100000"
  "mem_max_addr arena_big = 0x200000000" "GET arena_big p = 0" "load_ptr arena_big p = 0"
  by (simp_all add: arena_big_def)

lemma mm_init_arena0: "mm_init arena0 = (heap1, 0)"
  by (simp add: heap1_def opdefs rw)

lemma heap1_tab [simp]:
  "firstlist heap1 = 0x100010" "heap_listp heap1 = 0x100008" "mem_brk heap1 = 0x101010"
  "mem_max_addr heap1 = 0x1500000"
  "GET heap1 0x100004 = 9" "GET heap1 0x100008 = 9" "GET heap1 0x10000C = 4096"
  "GET heap1 0x101008 = 4096" "GET heap1 0x10100C = 1"
  "load_ptr heap1 0x100010 = 0" "load_ptr heap1 0x100018 = 0"
  by (simp_all add: heap1_def rw)

lemma adjust_size_16: "adjust_size 16 = 24"
  by (simp add: adjust_size_def DSIZE_def)

lemma mm_malloc_heap1: "mm_malloc heap1 16 = Some (heap2, 0x100010)"
  by (simp add: heap2_def adjust_size_16 opdefs rw)

lemma heap2_tab [simp]:
  "firstlist heap2 = 0x100028" "heap_listp heap2 = 0x100008" "mem_brk heap2 = 0x101010"
  "mem_max_addr heap2 = 0x1500000"
  "GET heap2 0x100004 = 9" "GET heap2 0x100008 = 9" "GET heap2 0x10000C = 25"
  "GET heap2 0x100020 = 25" "GET heap2 0x100024 = 4072"
  "GET heap2 0x101008 = 4072" "GET heap2 0x10100C = 1"
  "load_ptr heap2 0x100010 = 0" "load_ptr heap2 0x100018 = 0"
  "load_ptr heap2 0x100028 = 0" "load_ptr heap2 0x100030 = 0"
  by (simp_all add: heap2_def rw)

lemma mm_malloc_heap2: "mm_malloc heap2 16 = Some (heap3, 0x100028)"
  by (simp add: heap3_def adjust_size_16 opdefs rw)

lemma heap3_tab [simp]:
  "firstlist heap3 = 0x100040" "heap_listp heap3 = 0x100008" "mem_brk heap3 = 0x101010"
  "mem_max_addr heap3 = 0x1500000"
  "GET heap3 0x100004 = 9" "GET heap3 0x100008 = 9" "GET heap3 0x10000C = 25"
  "GET heap3 0x100020 = 25" "GET heap3 0x100024 = 25" "GET heap3 0x100038 = 25"
  "GET heap3 0x10003C = 4048" "GET heap3 0x101008 = 4048" "GET heap3 0x10100C = 1"
  "load_ptr heap3 0x100010 = 0" "load_ptr heap3 0x100018 = 0"
  "load_ptr heap3 0x100028 = 0" "load_ptr heap3 0x100030 = 0"
  "load_ptr heap3 0x100040 = 0" "load_ptr heap3 0x100048 = 0"
  by (simp_all add: heap3_def rw)

lemma mm_malloc_heap3: "mm_malloc heap3 16 = Some (heap4, 0x100040)"
  by (simp add: heap4_def adjust_size_16 opdefs rw)

lemma heap4_tab [simp]:
  "firstlist heap4 = 0x100058" "heap_listp heap4 = 0x100008" "mem_brk heap4 = 0x101010"
  "mem_max_addr heap4 = 0x1500000"
  "GET heap4 0x100004 = 9" "GET heap4 0x100008 = 9" "GET heap4 0x10000C = 25"
  "GET heap4 0x100020 = 25" "GET heap4 0x100024 = 25" "GET heap4 0x100038 = 25"
  "GET heap4 0x10003C = 25" "GET heap4 0x100050 = 25"
  "GET heap4 0x100054 = 4024" "GET heap4 0x101008 = 4024" "GET heap4 0x10100C = 1"
  "load_ptr heap4 0x100010 = 0" "load_ptr heap4 0x100018 = 0"
  "load_ptr heap4 0x100028 = 0" "load_ptr heap4 0x100030 = 0"
  "load_ptr heap4 0x100040 = 0" "load_ptr heap4 0x100048 = 0"
  "load_ptr heap4 0x100058 = 0" "load_ptr heap4 0x100060 = 0"
  by (simp_all add: heap4_def rw)

lemma heap2u_tab [simp]:
  "firstlist heap2u = 0x100028" "heap_listp heap2u = 0x100008" "mem_brk heap2u = 0x101010"
  "mem_max_addr heap2u = 0x1500000"
  "GET heap2u 0x100004 = 9" "GET heap2u 0x100008 = 9" "GET heap2u 0x10000C = 25"
  "GET heap2u 0x100020 = 25" "GET heap2u 0x100024 = 4072"
  "GET heap2u 0x101008 = 4072" "GET heap2u 0x10100C = 1"
  "load_ptr heap2u 0x100010 = 0x100018" "load_ptr heap2u 0x100018 = 0"
  "load_ptr heap2u 0x100028 = 0" "load_ptr heap2u 0x100030 = 0"
  by (simp_all add: heap2u_def rw)

lemma mm_init_arena_big: "mm_init arena_big = (big1, 0)"
  by (simp add: big1_def opdefs rw)

lemma big1_tab [simp]:
  "firstlist big1 = 0x100010" "heap_listp big1 = 0x100008" "mem_brk big1 = 0x101010"
  "mem_max_addr big1 = 0x200000000"
  "GET big1 0x100004 = 9" "GET big1 0x100008 = 9" "GET big1 0x10000C = 4096"
  "GET big1 0x101008 = 4096" "GET big1 0x10100C = 1"
  "load_ptr big1 0x100010 = 0" "load_ptr big1 0x100018 = 0"
  by (simp_all add: big1_def rw)

lemma mm_free_heap4: "mm_free heap4 0x100010 = heap5"
  by (simp add: heap5_def opdefs rw)

lemma heap5_tab [simp]:
  "firstlist heap5 = 0x100010" "heap_listp heap5 = 0x100008" "mem_brk heap5 = 0x101010"
  "mem_max_addr heap5 = 0x1500000"
  "GET heap5 0x100004 = 9" "GET heap5 0x100008 = 9" "GET heap5 0x10000C = 24"
  "GET heap5 0x100020 = 24" "GET heap5 0x100024 = 25" "GET heap5 0x100038 = 25"
  "GET heap5 0x10003C = 25" "GET heap5 0x100050 = 25"
  "GET heap5 0x100054 = 4024" "GET heap5 0x101008 = 4024" "GET heap5 0x10100C = 1"
  "load_ptr heap5 0x100010 = 0" "load_ptr heap5 0x100018 = 0x100058"
  "load_ptr heap5 0x100058 = 0x100010" "load_ptr heap5 0x100060 = 0"
  by (simp_all add: heap5_def rw)

lemma heap5m_tab [simp]:
  "firstlist heap5m = 0x100010" "heap_listp heap5m = 0x100008" "mem_brk heap5m = 0x101010"
  "mem_max_addr heap5m = 0x1500000"
  "GET heap5m 0x100004 = 9" "GET heap5m 0x100008 = 9" "GET heap5m 0x10000C = 24"
  "GET heap5m 0x100020 = 24" "GET heap5m 0x100024 = 24" "GET heap5m 0x100038 = 24"
  "GET heap5m 0x10003C = 25" "GET heap5m 0x100050 = 25"
  "GET heap5m 0x100054 = 4024" "GET heap5m 0x101008 = 4024" "GET heap5m 0x10100C = 1"
  "load_ptr heap5m 0x100010 = 0" "load_ptr heap5m 0x100018 = 0x100058"
  "load_ptr heap5m 0x100058 = 0x100010" "load_ptr heap5m 0x100060 = 0"
  by (simp_all add: heap5m_def rw)

lemma adjust_size_wrap: "adjust_size 0xFFFFFFF7 = 0" "adjust_size 0xFFFFFFF8 = 0"
  by (simp_all add: adjust_size_def DSIZE_def)

lemma adjust_size_4088: "adjust_size 4088 = 4096"
  by (simp add: adjust_size_def DSIZE_def)

lemma adjust_size_big: "adjust_size 0x7FFFFFF0 = 0x7FFFFFF8"
  by (simp add: adjust_size_def DSIZE_def)

lemma mm_malloc_heap1_wrap: "mm_malloc heap1 0xFFFFFFF8 = Some (heap1w, 0x100010)"
  by (simp add: heap1w_def adjust_size_wrap opdefs rw)

lemma heap1w_tab [simp]:
  "firstlist heap1w = 0x100010" "heap_listp heap1w = 0x100008" "mem_brk heap1w = 0x101010"
  "mem_max_addr heap1w = 0x1500000"
  "GET heap1w 0x100004 = 9" "GET heap1w 0x100008 = 1" "GET heap1w 0x10000C = 4096"
  "GET heap1w 0x101008 = 4096" "GET heap1w 0x10100C = 1"
  "load_ptr heap1w 0x100010 = 0x100010" "load_ptr heap1w 0x100018 = 0x100010"
  by (simp_all add: heap1w_def rw)

lemma mm_malloc_heap2u_wrap: "mm_malloc heap2u 0xFFFFFFF7 = Some (heap2w, 0x100028)"
  by (simp add: heap2w_def adjust_size_wrap opdefs rw)

lemma heap2w_tab [simp]:
  "firstlist heap2w = 0x100028" "heap_listp heap2w = 0x100008" "mem_brk heap2w = 0x101010"
  "mem_max_addr heap2w = 0x1500000"
  "GET heap2w 0x100004 = 9" "GET heap2w 0x100008 = 9" "GET heap2w 0x10000C = 25"
  "GET heap2w 0x100020 = 1" "GET heap2w 0x100024 = 4072"
  "GET heap2w 0x101008 = 4072" "GET heap2w 0x10100C = 1"
  "load_ptr heap2w 0x100010 = 0x100018" "load_ptr heap2w 0x100018 = 0"
  "load_ptr heap2w 0x100028 = 0x100028" "load_ptr heap2w 0x100030 = 0x100028"
  by (simp_all add: heap2w_def rw)

lemma mm_malloc_big1: "mm_malloc big1 0x7FFFFFF0 = Some (big2, 0x100010)"
  by (simp add: big2_def adjust_size_big opdefs rw)

lemma big2_tab [simp]:
  "firstlist big2 = 0x80100008" "heap_listp big2 = 0x100008" "mem_brk big2 = 0x80101008"
  "mem_max_addr big2 = 0x200000000"
  "GET big2 0x100004 = 9" "GET big2 0x100008 = 9" "GET big2 0x10000C = 0x7FFFFFF9"
  "GET big2 0x80100000 = 0x7FFFFFF9" "GET big2 0x80100004 = 4096"
  "GET big2 0x80101000 = 4096" "GET big2 0x80101004 = 1"
  "load_ptr big2 0x100010 = 0" "load_ptr big2 0x100018 = 0"
  "load_ptr big2 0x80100008 = 0" "load_ptr big2 0x80100010 = 0"
  by (simp_all add: big2_def rw)

lemma mm_free_big2: "mm_free big2 0x100010 = big3"
  by (simp add: big3_def opdefs rw)

lemma big3_tab [simp]:
  "firstlist big3 = 0x100010" "heap_listp big3 = 0x100008" "mem_brk big3 = 0x80101008"
  "mem_max_addr big3 = 0x200000000"
  "GET big3 0x100004 = 9" "GET big3 0x100008 = 9" "GET big3 0x10000C = 0x80000FF8"
  "GET big3 0x80101000 = 0x80000FF8" "GET big3 0x80101004 = 1"
  "load_ptr big3 0x100010 = 0" "load_ptr big3 0x100018 = 0"
  by (simp_all add: big3_def rw)

lemma mm_malloc_heap1w: "mm_malloc heap1w 4088 = Some (heap1x, 0x100010)"
  by (simp add: heap1x_def adjust_size_4088 opdefs rw)

lemma heap1x_tab [simp]:
  "firstlist heap1x = 0x100010" "heap_listp heap1x = 0x100008" "mem_brk heap1x = 0x101010"
  "mem_max_addr heap1x = 0x1500000"
  "GET heap1x 0x100004 = 9" "GET heap1x 0x100008 = 1" "GET heap1x 0x10000C = 4097"
  "GET heap1x 0x101008 = 4097" "GET heap1x 0x10100C = 1"
  "load_ptr heap1x 0x100010 = 0" "load_ptr heap1x 0x100018 = 0"
  by (simp_all add: heap1x_def rw)

lemma heap2m_tab [simp]:
  "firstlist heap2m = 0x100028" "heap_listp heap2m = 0x100008" "mem_brk heap2m = 0x101010"
  "mem_max_addr heap2m = 0x1500000"
  "GET heap2m 0x100004 = 9" "GET heap2m 0x100008 = 9" "GET heap2m 0x10000C = 25"
  "GET heap2m 0x100020 = 1" "GET heap2m 0x100024 = 4072"
  "GET heap2m 0x101008 = 4072" "GET heap2m 0x10100C = 1"
  "load_ptr heap2m 0x100010 = 0x100018" "load_ptr heap2m 0x100018 = 0"
  "load_ptr heap2m 0x100028 = 0x100018" "load_ptr heap2m 0x100030 = 0"
  by (simp_all add: heap2m_def rw)

lemma mm_free_heap2m: "mm_free heap2m 0x100010 = heap2z"
  by (simp add: heap2z_def opdefs0 rw)

lemma mm_realloc_heap2u:
  "mm_realloc heap2u 0x100010 0xFFFFFFF7 = Returns (heap2z, 0x100028)"
  by (simp add: mm_realloc_def mm_malloc_heap2u_wrap mm_free_heap2m [symmetric] heap2m_def
      GET_SIZE_def GET_ALLOC_def HDRP_def NEXT_BLKP_def DSIZE_def Let_def)

lemma heap2z_data: "load_ptr heap2z 0x100028 = 0x100010"
  by (simp add: heap2z_def rw)

lemma mm_free_heap4_mid: "mm_free heap4 0x100028 = heap6"
  by (simp add: heap6_def opdefs rw)

lemma heap6_tab [simp]:
  "firstlist heap6 = 0x100028" "heap_listp heap6 = 0x100008" "mem_brk heap6 = 0x101010"
  "mem_max_addr heap6 = 0x1500000"
  "GET heap6 0x100004 = 9" "GET heap6 0x100008 = 9" "GET heap6 0x10000C = 25"
  "GET heap6 0x100020 = 25" "GET heap6 0x100024 = 24" "GET heap6 0x100038 = 24"
  "GET heap6 0x10003C = 25" "GET heap6 0x100050 = 25"
  "GET heap6 0x100054 = 4024" "GET heap6 0x101008 = 4024" "GET heap6 0x10100C = 1"
  "load_ptr heap6 0x100028 = 0" "load_ptr heap6 0x100030 = 0x100058"
  "load_ptr heap6 0x100058 = 0x100028" "load_ptr heap6 0x100060 = 0"
  by (simp_all add: heap6_def rw)

lemma mm_malloc_heap6_wrap: "mm_malloc heap6 0xFFFFFFF8 = Some (heap7, 0x100028)"
  by (simp add: heap7_def adjust_size_wrap opdefs rw)

lemma heap7_tab [simp]:
  "firstlist heap7 = 0x100028" "heap_listp heap7 = 0x100008" "mem_brk heap7 = 0x101010"
  "mem_max_addr heap7 = 0x1500000"
  "GET heap7 0x100004 = 9" "GET heap7 0x100008 = 9" "GET heap7 0x10000C = 25"
  "GET heap7 0x100020 = 1" "GET heap7 0x100024 = 24" "GET heap7 0x100038 = 24"
  "GET heap7 0x10003C = 25" "GET heap7 0x100050 = 25"
  "GET heap7 0x100054 = 4024" "GET heap7 0x101008 = 4024" "GET heap7 0x10100C = 1"
  "load_ptr heap7 0x100028 = 0x100028" "load_ptr heap7 0x100030 = 0x100028"
  "load_ptr heap7 0x100058 = 0x100028" "load_ptr heap7 0x100060 = 0"
  by (simp_all add: heap7_def rw)

lemma mm_free_heap7: "mm_free heap7 0x100028 = heap8"
  by (simp add: heap8_def opdefs rw)

lemma heap8_tab [simp]:
  "firstlist heap8 = 0x100028" "heap_listp heap8 = 0x100008" "mem_brk heap8 = 0x101010"
  "mem_max_addr heap8 = 0x1500000"
  "GET heap8 0x100004 = 9" "GET heap8 0x100008 = 9" "GET heap8 0x10000C = 25"
  "GET heap8 0x100020 = 1" "GET heap8 0x100024 = 48" "GET heap8 0x100038 = 24"
  "GET heap8 0x10003C = 25" "GET heap8 0x100050 = 48"
  "GET heap8 0x100054 = 4024" "GET heap8 0x101008 = 4024" "GET heap8 0x10100C = 1"
  by (simp_all add: heap8_def rw)

text \<open>On \<open>heap1w\<close> the index is a cycle: the scan for a size that no block has never ends.\<close>

lemma find_fit_loop_heap1w_cycle:
  assumes "find_fit_loop s a bp best bs = Some y"
  shows "\<not> (s = heap1w \<and> a = 32 \<and> bp = 0x100010)"
proof (rule find_fit_loop.raw_induct
    [where P = "\<lambda>s a bp best bs y. \<not> (s = heap1w \<and> a = 32 \<and> bp = 0x100010)", OF _ assms])
  fix f :: "heap_state \<Rightarrow> u32 \<Rightarrow> addr \<Rightarrow> addr \<Rightarrow> u32 \<Rightarrow> addr option"
    and s a bp best bs y
  assume IH: "\<And>x1 x2 x3 x4 x5 z. f x1 x2 x3 x4 x5 = Some z
      \<Longrightarrow> \<not> (x1 = heap1w \<and> x2 = 32 \<and> x3 = 0x100010)"
  assume body: "(if bp = 0 then Some (if bs = 2147483648 then 0 else best)
      else if GET_SIZE s (HDRP bp) = a then Some bp
           else if GET_SIZE s (HDRP bp) < bs \<and> a < GET_SIZE s (HDRP bp)
                then f s a (get_next s bp) bp (GET_SIZE s (HDRP bp))
                else f s a (get_next s bp) best bs) = Some y"
  show "\<not> (s = heap1w \<and> a = 32 \<and> bp = 0x100010)"
  proof
    assume c: "s = heap1w \<and> a = 32 \<and> bp = 0x100010"
    have sz: "GET_SIZE heap1w (HDRP 0x100010) = 4096" "get_next heap1w 0x100010 = 0x100010"
      by (simp_all add: GET_SIZE_def HDRP_def get_next_def)
    from body c sz have "\<exists>b' bs'. f heap1w 32 0x100010 b' bs' = Some y"
      by (auto split: if_splits)
    then obtain b' bs' where "f heap1w 32 0x100010 b' bs' = Some y" by blast
    from IH [OF this] show False by simp
  qed
qed

lemma find_fit_heap1w: "find_fit heap1w 32 = None"
proof (cases "find_fit heap1w 32")
  case None
  then show ?thesis .
next
  case (Some y)
  then have "find_fit_loop heap1w 32 0x100010 0 2147483648 = Some y"
    by (simp add: find_fit_def)
  from find_fit_loop_heap1w_cycle [OF this] show ?thesis by simp
qed

lemma find_fit_heap1x: "find_fit heap1x 4096 = Some 0x100010"
  by (simp add: opdefs0)

lemma find_fit_big3_32: "find_fit big3 32 = Some 0"
  by (simp add: opdefs0)

section \<open>The scan of the index\<close>

lemma find_fit_loop_scan:
  "index_path s bp xs \<Longrightarrow>
   find_fit_loop s asize bp best bs = Some (fit_scan (\<lambda>x. GET_SIZE s (HDRP x)) asize xs best bs)"
proof (induction xs arbitrary: bp best bs)
  case Nil
  then show ?case by (simp add: find_fit_loop.simps)
next
  case (Cons x xs)
  then have bp: "bp = x" "x \<noteq> 0" and path: "index_path s (get_next s x) xs"
    by auto
  show ?case
    unfolding bp
    by (subst find_fit_loop.simps) (simp add: bp Cons.IH [OF path])
qed

lemma fit_scan_exact:
  "\<exists>x\<in>set xs. f x = asize \<Longrightarrow>
   \<exists>ys zs. xs = ys @ fit_scan f asize xs best bs # zs \<and> f (fit_scan f asize xs best bs) = asize
      \<and> (\<forall>y\<in>set ys. f y \<noteq> asize)"
proof (induction xs arbitrary: best bs)
  case Nil
  then show ?case by simp
next
  case (Cons x xs)
  show ?case
  proof (cases "f x = asize")
    case True
    then show ?thesis by (intro exI [of _ "[]"] exI [of _ xs]) simp
  next
    case False
    with Cons.prems have ex: "\<exists>x\<in>set xs. f x = asize" by simp
    define b' where "b' = (if f x < bs \<and> asize < f x then x else best)"
    define bs' where "bs' = (if f x < bs \<and> asize < f x then f x else bs)"
    have eq: "fit_scan f asize (x # xs) best bs = fit_scan f asize xs b' bs'"
      using False by (simp add: b'_def bs'_def)
    from Cons.IH [OF ex, of b' bs'] obtain ys zs where
      "xs = ys @ fit_scan f asize xs b' bs' # zs" "f (fit_scan f asize xs b' bs') = asize"
      "\<forall>y\<in>set ys. f y \<noteq> asize" by blast
    then show ?thesis unfolding eq using False
      by (intro exI [of _ "x # ys"] exI [of _ zs]) simp
  qed
qed

lemma fit_scan_none:
  "\<forall>x\<in>set xs. f x \<noteq> asize \<Longrightarrow> \<forall>x\<in>set xs. asize < f x \<longrightarrow> bs \<le> f x \<Longrightarrow>
   fit_scan f asize xs best bs = (if bs = 2147483648 then 0 else best)"
  by (induction xs arbitrary: best bs) (auto simp: not_le)

lemma fit_scan_best:
  "\<forall>x\<in>set xs. f x \<noteq> asize \<Longrightarrow> \<exists>x\<in>set xs. asize < f x \<and> f x < bs \<Longrightarrow> bs \<le> 2147483648 \<Longrightarrow>
   fit_scan f asize xs best bs \<in> set xs \<and> asize < f (fit_scan f asize xs best bs)
   \<and> f (fit_scan f asize xs best bs) < bs
   \<and> (\<forall>x\<in>set xs. asize < f x \<longrightarrow> f (fit_scan f asize xs best bs) \<le> f x)"
proof (induction xs arbitrary: best bs)
  case Nil
  then show ?case by simp
next
  case (Cons x xs)
  from Cons.prems(1) have ne: "f x \<noteq> asize" and nex: "\<forall>x\<in>set xs. f x \<noteq> asize" by simp_all
  show ?case
  proof (cases "f x < bs \<and> asize < f x")
    case True
    have eq: "fit_scan f asize (x # xs) best bs = fit_scan f asize xs x (f x)"
      using ne True by simp
    show ?thesis
    proof (cases "\<exists>y\<in>set xs. asize < f y \<and> f y < f x")
      case c: True
      have le: "f x \<le> 2147483648" using True Cons.prems(3) by (meson less_imp_le order_less_le_trans)
      from Cons.IH [OF nex c le, of x] show ?thesis
        unfolding eq using True by auto
    next
      case c: False
      then have "\<forall>y\<in>set xs. asize < f y \<longrightarrow> f x \<le> f y" by (auto simp: not_less)
      have "f x \<noteq> 2147483648" using True Cons.prems(3) by (metis not_le)
      with fit_scan_none [OF nex \<open>\<forall>y\<in>set xs. asize < f y \<longrightarrow> f x \<le> f y\<close>, of x]
      have "fit_scan f asize xs x (f x) = x" by simp
      then show ?thesis unfolding eq using True c by (auto simp: not_less)
    qed
  next
    case False
    have eq: "fit_scan f asize (x # xs) best bs = fit_scan f asize xs best bs"
      using ne False by auto
    from Cons.prems(2) False have c: "\<exists>y\<in>set xs. asize < f y \<and> f y < bs" by auto
    from Cons.IH [OF nex c Cons.prems(3), of best] show ?thesis
      unfolding eq using False by (auto simp: not_less)
  qed
qed

section \<open>Boundary tags, links and the break\<close>

text \<open>
  Sizes are multiples of 8, so a footer never overlaps the header that locates it.
\<close>

lemma and7_zero_cases: "(k::addr) AND 7 = 0 \<Longrightarrow> k = 0 \<or> 8 \<le> k"
proof (cases "k < 8")
  case True
  assume z: "k AND 7 = 0"
  from lt8_cases [OF True] have "k = 0 \<or> k = 1 \<or> k = 2 \<or> k = 3 \<or> k = 4 \<or> k = 5 \<or> k = 6 \<or> k = 7" .
  then show ?thesis
  proof (elim disjE)
  qed (use z in simp_all)
next
  case False
  then show ?thesis by (simp add: not_less)
qed

lemma ucast_size_and7: "(ucast (v AND NOT 7 :: u32) :: addr) AND 7 = 0"
proof -
  have m: "(7 :: addr) = mask 3" "(7 :: u32) = mask 3" by (simp_all add: mask_eq_exp_minus_1)
  show ?thesis unfolding m by (rule bit_word_eqI) (auto simp add: bit_simps)
qed

lemma ucast_u32_less: "(ucast (v :: u32) :: addr) < 0x100000000"
proof -
  have "unat v < 2 ^ 32" using unsigned_less [of v, where 'a=nat] by simp
  then show ?thesis by (simp add: word_less_nat_alt unat_ucast_u32)
qed

lemma apart1: "8 \<le> (k::addr) \<Longrightarrow> 4 \<le> k - 4"
  by unat_arith

lemma apart2: "8 \<le> (k::addr) \<Longrightarrow> k < 0x100000000 \<Longrightarrow> 4 \<le> 4 - k"
  by unat_arith

lemma apart_arith: "(k::addr) = 0 \<or> 8 \<le> k \<Longrightarrow> k < 0x100000000 \<Longrightarrow> 4 \<le> k - 4 \<and> 4 \<le> 4 - k"
  using apart1 [of k] apart2 [of k] by auto

lemma tag_apart:
  fixes bp :: addr and v :: u32
  defines "k \<equiv> (ucast (v AND NOT 7) :: addr)"
  shows "4 \<le> (bp + k - 8) - (bp - 4)" "4 \<le> (bp - 4) - (bp + k - 8)"
proof -
  have "k = 0 \<or> 8 \<le> k" unfolding k_def by (rule and7_zero_cases [OF ucast_size_and7])
  moreover have "k < 0x100000000" unfolding k_def by (rule ucast_u32_less)
  ultimately have a: "4 \<le> k - 4 \<and> 4 \<le> 4 - k" by (rule apart_arith)
  have e: "(bp + k - 8) - (bp - 4) = k - 4" "(bp - 4) - (bp + k - 8) = 4 - k" by simp_all
  show "4 \<le> (bp + k - 8) - (bp - 4)" "4 \<le> (bp - 4) - (bp + k - 8)"
    unfolding e using a by simp_all
qed

lemma ucast_add_down: "ucast (ucast (a::u32) + ucast (b::u32) :: addr) = a + b"
proof -
  have a: "unat a < 2 ^ 32" using unsigned_less [of a, where 'a=nat] by simp
  have b: "unat b < 2 ^ 32" using unsigned_less [of b, where 'a=nat] by simp
  have "unat (ucast a + ucast b :: addr) = unat a + unat b"
    using a b by (simp add: unat_word_ariths unat_ucast_u32)
  then have "unat (ucast (ucast a + ucast b :: addr) :: u32) = unat (a + b)"
    by (simp add: unsigned_ucast_eq unat_word_ariths take_bit_eq_mod)
  then show ?thesis by (simp add: word_unat_eq_iff)
qed

text \<open>Writing a tag \<open>v\<close> in a block's header and then in the footer that this header locates.\<close>

lemma tag_header_footer:
  assumes "s1 = PUT s (HDRP bp) v" "s2 = PUT s1 (FTRP s1 bp) v"
  shows "GET s2 (HDRP bp) = v" "FTRP s2 bp = FTRP s1 bp" "GET s2 (FTRP s2 bp) = v"
    "firstlist s2 = firstlist s" "mem_brk s2 = mem_brk s" "heap_listp s2 = heap_listp s"
    "mem_max_addr s2 = mem_max_addr s"
    "\<And>a. 4 \<le> a - HDRP bp \<Longrightarrow> 4 \<le> a - FTRP s2 bp \<Longrightarrow> mem s2 a = mem s a"
proof -
  have h1: "GET s1 (HDRP bp) = v" by (simp add: assms(1) GET_PUT_same)
  have f1: "FTRP s1 bp = bp + ucast (v AND NOT 7) - 8"
    by (simp add: FTRP_def GET_SIZE_def h1)
  show h2: "GET s2 (HDRP bp) = v"
    unfolding assms(2) f1 HDRP_def
    using tag_apart [of bp v] h1 by (simp add: GET_PUT_other HDRP_def)
  show f2: "FTRP s2 bp = FTRP s1 bp"
    by (simp add: FTRP_def GET_SIZE_def h1 h2)
  show "GET s2 (FTRP s2 bp) = v"
    unfolding f2 by (simp add: assms(2) GET_PUT_same)
  show "firstlist s2 = firstlist s" "mem_brk s2 = mem_brk s" "heap_listp s2 = heap_listp s"
    "mem_max_addr s2 = mem_max_addr s"
    by (simp_all add: assms)
  show "\<And>a. 4 \<le> a - HDRP bp \<Longrightarrow> 4 \<le> a - FTRP s2 bp \<Longrightarrow> mem s2 a = mem s a"
    unfolding f2 by (simp add: assms mem_PUT_other)
qed

lemma ucast_u32_eq_0: "(ucast (x :: u32) :: addr) = 0 \<longleftrightarrow> x = 0"
proof -
  have "(ucast x :: addr) = 0 \<longleftrightarrow> unat (ucast x :: addr) = 0" by (simp add: word_unat_eq_iff)
  also have "\<dots> \<longleftrightarrow> unat x = 0" by (simp only: unat_ucast_u32)
  also have "\<dots> \<longleftrightarrow> x = 0" by (simp add: word_unat_eq_iff)
  finally show ?thesis .
qed

lemma index_path_cong:
  "\<forall>x\<in>set xs. get_next s' x = get_next s x \<Longrightarrow> index_path s' p xs = index_path s p xs"
  by (induction xs arbitrary: p) auto

lemma mem_brk_listInsert [simp]: "mem_brk (listInsert s bp) = mem_brk s"
  by (simp add: listInsert_def Let_def set_next_def set_prev_def)

lemma mem_brk_listRemove [simp]: "mem_brk (listRemove s bp) = mem_brk s"
  by (simp add: listRemove_def Let_def set_next_def set_prev_def)

lemma mem_brk_coalesce [simp]: "mem_brk (fst (coalesce s bp)) = mem_brk s"
  by (simp add: coalesce_def Let_def)

lemma mem_brk_place [simp]: "mem_brk (place s bp asize) = mem_brk s"
  by (simp add: place_def place_mark_def Let_def)

lemma find_fit_none_fits:
  assumes "index_path s (firstlist s) xs"
    and "\<forall>x\<in>set xs. GET_SIZE s (HDRP x) \<noteq> asize"
    and "\<forall>x\<in>set xs. asize < GET_SIZE s (HDRP x) \<longrightarrow> 2147483648 \<le> GET_SIZE s (HDRP x)"
  shows "find_fit s asize = Some 0"
  unfolding find_fit_def
  by (simp add: find_fit_loop_scan [OF assms(1)] fit_scan_none [OF assms(2,3)])

lemma mm_malloc_extends:
  assumes ff: "find_fit s (adjust_size sz) = Some 0" and nz: "sz \<noteq> 0"
  shows "mm_malloc s sz =
      (let (s1, bp) = extend_heap s (MAX_int (adjust_size sz) CHUNKSIZE div WSIZE)
       in if bp = 0 then Some (s1, 0) else Some (place s1 bp (adjust_size sz), bp))"
  using ff nz by (simp add: mm_malloc_def Let_def)

lemma extend_heap_brk:
  "mem_brk (fst (extend_heap s words)) =
     (let esz = (if words mod 2 \<noteq> 0 then (words + 1) * WSIZE else words * WSIZE)
      in if unat (mem_brk s) + unat esz \<le> unat (mem_max_addr s)
         then mem_brk s + ucast esz else mem_brk s)"
  by (simp add: extend_heap_def mem_sbrk_def Let_def)

lemma extend_heap_fails:
  "\<not> unat (mem_brk s) + unat (if words mod 2 \<noteq> 0 then (words + 1) * WSIZE else words * WSIZE)
        \<le> unat (mem_max_addr s)
   \<Longrightarrow> extend_heap s words = (s, 0)"
  by (simp add: extend_heap_def mem_sbrk_def Let_def)

lemma realloc_keeps_larger_block:
  "sz + DSIZE < GET_SIZE s (HDRP ptr) \<Longrightarrow> mm_realloc s ptr sz = Returns (s, ptr)"
  by (simp add: mm_realloc_def Let_def)

section \<open>Zero-size requests and null frees\<close>

text \<open>
  Claim C9: \<^verbatim>\<open>mm_malloc(0)\<close> returns the null pointer and leaves the heap as it is, and
  \<^verbatim>\<open>mm_free(NULL)\<close> returns with the heap, the index included, unchanged.
\<close>

theorem zero_size_and_null_free: "mm_malloc s 0 = Some (s, 0) \<and> mm_free s 0 = s"
  by (simp add: mm_malloc_def mm_free_def)

section \<open>The fit selector\<close>

text \<open>
  Claim C10: when the index holds no block of exactly the required size and every indexed
  block that is strictly larger has a size of at least \<open>2 ^ 31 = 2147483648\<close>, the best-fit
  tracker, which starts at that value, selects none of them and \<^verbatim>\<open>find_fit\<close> returns the
  null pointer; the caller \<^verbatim>\<open>mm_malloc\<close> then takes the extension path: it calls
  \<^verbatim>\<open>extend_heap\<close> for \<open>max(asize, CHUNKSIZE)\<close> bytes and places the request in what that
  returns, so that the break has moved up by the extension when the call returns, unless
  the arena cannot grow, in which case the call returns null and leaves the heap as it was.
\<close>

theorem find_fit_sentinel_blind:
  assumes "index_path s (firstlist s) xs"
    and "\<forall>x\<in>set xs. GET_SIZE s (HDRP x) \<noteq> asize"
    and "\<forall>x\<in>set xs. asize < GET_SIZE s (HDRP x) \<longrightarrow> 2147483648 \<le> GET_SIZE s (HDRP x)"
    and "sz \<noteq> 0" and "adjust_size sz = asize"
  shows "find_fit s asize = Some 0
    \<and> mm_malloc s sz =
        (let (s1, bp) = extend_heap s (MAX_int asize CHUNKSIZE div WSIZE)
         in if bp = 0 then Some (s1, 0) else Some (place s1 bp asize, bp))
    \<and> (let words = MAX_int asize CHUNKSIZE div WSIZE;
            esz = (if words mod 2 \<noteq> 0 then (words + 1) * WSIZE else words * WSIZE)
        in case mm_malloc s sz of
             None \<Rightarrow> False
           | Some (s', p) \<Rightarrow>
               if unat (mem_brk s) + unat esz \<le> unat (mem_max_addr s)
               then mem_brk s' = mem_brk s + ucast esz
               else s' = s \<and> p = 0)"
proof -
  have ff: "find_fit s asize = Some 0" by (rule find_fit_none_fits [OF assms(1,2,3)])
  define words where "words = MAX_int asize CHUNKSIZE div WSIZE"
  define esz where "esz = (if words mod 2 \<noteq> 0 then (words + 1) * WSIZE else words * WSIZE)"
  have mm: "mm_malloc s sz =
        (let (s1, bp) = extend_heap s words
         in if bp = 0 then Some (s1, 0) else Some (place s1 bp asize, bp))"
    using mm_malloc_extends [of s sz, unfolded assms(5), OF ff assms(4)] by (simp add: words_def)
  obtain s1 bp where e: "extend_heap s words = (s1, bp)" by (cases "extend_heap s words")
  have brk: "mem_brk s1 = (if unat (mem_brk s) + unat esz \<le> unat (mem_max_addr s)
         then mem_brk s + ucast esz else mem_brk s)"
    using extend_heap_brk [of s words] e by (simp add: esz_def Let_def)
  have fail: "\<not> unat (mem_brk s) + unat esz \<le> unat (mem_max_addr s) \<Longrightarrow> s1 = s \<and> bp = 0"
    using extend_heap_fails [of s words] e by (simp add: esz_def)
  have H: "case mm_malloc s sz of
             None \<Rightarrow> False
           | Some (s', p) \<Rightarrow>
               if unat (mem_brk s) + unat esz \<le> unat (mem_max_addr s)
               then mem_brk s' = mem_brk s + ucast esz
               else s' = s \<and> p = 0"
    using brk fail by (auto simp: mm e)
  show ?thesis
    apply (intro conjI)
      apply (rule ff)
     apply (rule mm [unfolded words_def])
    apply (unfold Let_def)
    apply (rule H [unfolded esz_def words_def])
    done
qed

text \<open>
  On \<open>big3\<close> the only indexed block is free and has \<open>0x80000FF8\<close> bytes; a request for 16
  bytes (24 with overhead) is not served from it, and \<^verbatim>\<open>mm_malloc\<close> raises the break by
  4096.
\<close>

theorem find_fit_sentinel_blind_witness:
  "index_path big3 (firstlist big3) [0x100010]
   \<and> GET_SIZE big3 (HDRP 0x100010) = 0x80000FF8 \<and> GET_ALLOC big3 (HDRP 0x100010) = 0
   \<and> adjust_size 16 = 24
   \<and> find_fit big3 24 = Some 0
   \<and> (case mm_malloc big3 16 of
         None \<Rightarrow> False
       | Some (s', p) \<Rightarrow> mem_brk s' = mem_brk big3 + 4096)"
proof -
  have p: "index_path big3 (firstlist big3) [0x100010]"
    by (simp add: get_next_def)
  have sz: "GET_SIZE big3 (HDRP 0x100010) = 0x80000FF8" "GET_ALLOC big3 (HDRP 0x100010) = 0"
    by (simp_all add: GET_SIZE_def GET_ALLOC_def HDRP_def)
  have h2: "\<forall>x\<in>set [0x100010]. GET_SIZE big3 (HDRP x) \<noteq> 24"
    and h3: "\<forall>x\<in>set [0x100010]. 24 < GET_SIZE big3 (HDRP x) \<longrightarrow> 2147483648 \<le> GET_SIZE big3 (HDRP x)"
    by (simp_all add: sz)
  have nz: "(16 :: u32) \<noteq> 0" by simp
  note t = find_fit_sentinel_blind [OF p h2 h3 nz adjust_size_16]
  have room: "unat (mem_brk big3) + unat (4096 :: u32) \<le> unat (mem_max_addr big3)" by simp
  have e: "(if (MAX_int 24 CHUNKSIZE div WSIZE) mod 2 \<noteq> 0
             then (MAX_int 24 CHUNKSIZE div WSIZE + 1) * WSIZE
             else MAX_int 24 CHUNKSIZE div WSIZE * WSIZE) = 4096"
    by (simp add: MAX_int_def CHUNKSIZE_def WSIZE_def)
  note c3 = t [THEN conjunct2, THEN conjunct2, unfolded Let_def e]
  have "case mm_malloc big3 16 of
         None \<Rightarrow> False
       | Some (s', p) \<Rightarrow> mem_brk s' = mem_brk big3 + 4096"
  proof (cases "mm_malloc big3 16")
    case None
    with c3 show ?thesis by simp
  next
    case (Some r)
    obtain s' p' where r: "r = (s', p')" by (cases r)
    from c3 Some r room have "mem_brk s' = mem_brk big3 + ucast (4096 :: u32)" by simp
    then show ?thesis using Some r by simp
  qed
  with t p sz show ?thesis by (simp add: adjust_size_16)
qed

text \<open>
  Claim C4 as stated fails in three places.  (1) "After scanning the whole index it returns
  the smallest free block strictly larger than the requirement, or the no-match sentinel
  if no block is large enough": on \<open>big3\<close> a free block larger than 32 bytes is indexed and
  \<^verbatim>\<open>find_fit\<close> returns the null pointer for 32.  (2) "It never returns an allocated block":
  on \<open>heap1x\<close>, reached by \<^verbatim>\<open>mm_init\<close>, \<^verbatim>\<open>mm_malloc(0xFFFFFFF8)\<close>, \<^verbatim>\<open>mm_malloc(4088)\<close>, the index
  is the list of the one block \<open>0x100010\<close>, that block is allocated, and \<^verbatim>\<open>find_fit\<close> returns
  it for 4096.  (3) "For every required total size the fit selector returns": on \<open>heap1w\<close>,
  reached by \<^verbatim>\<open>mm_init\<close>, \<^verbatim>\<open>mm_malloc(0xFFFFFFF8)\<close>, the index is a cycle and \<^verbatim>\<open>find_fit\<close> does
  not return for 32.
\<close>

theorem find_fit_policy_fails:
  "index_path big3 (firstlist big3) [0x100010]
   \<and> GET_ALLOC big3 (HDRP 0x100010) = 0 \<and> 32 < GET_SIZE big3 (HDRP 0x100010)
   \<and> find_fit big3 32 = Some 0
   \<and> index_path heap1x (firstlist heap1x) [0x100010]
   \<and> GET_ALLOC heap1x (HDRP 0x100010) = 1 \<and> find_fit heap1x 4096 = Some 0x100010
   \<and> firstlist heap1w = 0x100010 \<and> get_next heap1w 0x100010 = 0x100010
   \<and> find_fit heap1w 32 = None"
  by (simp add: find_fit_big3_32 find_fit_heap1x find_fit_heap1w
      GET_ALLOC_def GET_SIZE_def HDRP_def get_next_def)

text \<open>
  Claim C4, amended: on an index that is a null-terminated list, \<^verbatim>\<open>find_fit\<close> returns the
  first indexed block whose size is exactly the requirement if there is one; otherwise, if
  some indexed block is strictly larger than the requirement and smaller than \<open>2 ^ 31\<close>, it
  returns an indexed block strictly larger than the requirement and no larger than any
  other such block; otherwise it returns the null pointer.  A non-null result is always a
  member of the index and never smaller than the requirement.
\<close>

theorem find_fit_policy:
  assumes "index_path s (firstlist s) xs"
  shows "\<exists>r. find_fit s asize = Some r \<and>
     (if \<exists>x\<in>set xs. GET_SIZE s (HDRP x) = asize
      then \<exists>ys zs. xs = ys @ r # zs \<and> GET_SIZE s (HDRP r) = asize
             \<and> (\<forall>y\<in>set ys. GET_SIZE s (HDRP y) \<noteq> asize)
      else if \<exists>x\<in>set xs. asize < GET_SIZE s (HDRP x) \<and> GET_SIZE s (HDRP x) < 2147483648
      then r \<in> set xs \<and> asize < GET_SIZE s (HDRP r)
             \<and> (\<forall>x\<in>set xs. asize < GET_SIZE s (HDRP x) \<longrightarrow> GET_SIZE s (HDRP r) \<le> GET_SIZE s (HDRP x))
      else r = 0)
     \<and> (r \<noteq> 0 \<longrightarrow> r \<in> set xs \<and> asize \<le> GET_SIZE s (HDRP r))"
proof -
  let ?f = "\<lambda>x. GET_SIZE s (HDRP x)"
  let ?r = "fit_scan ?f asize xs 0 2147483648"
  have r: "find_fit s asize = Some ?r"
    unfolding find_fit_def by (rule find_fit_loop_scan [OF assms])
  have main: "(if \<exists>x\<in>set xs. ?f x = asize
      then \<exists>ys zs. xs = ys @ ?r # zs \<and> ?f ?r = asize \<and> (\<forall>y\<in>set ys. ?f y \<noteq> asize)
      else if \<exists>x\<in>set xs. asize < ?f x \<and> ?f x < 2147483648
      then ?r \<in> set xs \<and> asize < ?f ?r \<and> (\<forall>x\<in>set xs. asize < ?f x \<longrightarrow> ?f ?r \<le> ?f x)
      else ?r = 0)"
  proof (cases "\<exists>x\<in>set xs. ?f x = asize")
    case True
    from fit_scan_exact [of xs ?f asize 0 2147483648, OF True] True show ?thesis by simp
  next
    case ne: False
    then have ne': "\<forall>x\<in>set xs. ?f x \<noteq> asize" by simp
    show ?thesis
    proof (cases "\<exists>x\<in>set xs. asize < ?f x \<and> ?f x < 2147483648")
      case True
      from fit_scan_best [of xs ?f asize 2147483648 0, OF ne' True] ne True show ?thesis by simp
    next
      case False
      then have "\<forall>x\<in>set xs. asize < ?f x \<longrightarrow> 2147483648 \<le> ?f x" by (auto simp: not_less)
      from fit_scan_none [of xs ?f asize 2147483648 0, OF ne' this] have z: "?r = 0" by simp
      show ?thesis unfolding if_not_P [OF ne] if_not_P [OF False] by (rule z)
    qed
  qed
  have mem: "?r \<noteq> 0 \<longrightarrow> ?r \<in> set xs \<and> asize \<le> ?f ?r"
  proof (cases "\<exists>x\<in>set xs. ?f x = asize")
    case True
    from fit_scan_exact [of xs ?f asize 0 2147483648, OF True] obtain ys zs
      where "xs = ys @ ?r # zs" and e: "?f ?r = asize" by blast
    then have "?r \<in> set xs" by (metis in_set_conv_decomp)
    then show ?thesis using e by simp
  next
    case ne: False
    then have ne': "\<forall>x\<in>set xs. ?f x \<noteq> asize" by simp
    show ?thesis
    proof (cases "\<exists>x\<in>set xs. asize < ?f x \<and> ?f x < 2147483648")
      case True
      from fit_scan_best [of xs ?f asize 2147483648 0, OF ne' True]
      have "?r \<in> set xs" "asize < ?f ?r" by simp_all
      then show ?thesis by (simp add: less_imp_le)
    next
      case False
      then have "\<forall>x\<in>set xs. asize < ?f x \<longrightarrow> 2147483648 \<le> ?f x" by (auto simp: not_less)
      from fit_scan_none [of xs ?f asize 2147483648 0, OF ne' this] show ?thesis by simp
    qed
  qed
  have "(if \<exists>x\<in>set xs. ?f x = asize
      then \<exists>ys zs. xs = ys @ ?r # zs \<and> ?f ?r = asize \<and> (\<forall>y\<in>set ys. ?f y \<noteq> asize)
      else if \<exists>x\<in>set xs. asize < ?f x \<and> ?f x < 2147483648
      then ?r \<in> set xs \<and> asize < ?f ?r \<and> (\<forall>x\<in>set xs. asize < ?f x \<longrightarrow> ?f ?r \<le> ?f x)
      else ?r = 0)
     \<and> (?r \<noteq> 0 \<longrightarrow> ?r \<in> set xs \<and> asize \<le> ?f ?r)"
    using main mem by blast
  with r show ?thesis by blast
qed

theorem find_fit_policy_witness:
  "index_path heap5 (firstlist heap5) [0x100010, 0x100058]
   \<and> GET_SIZE heap5 (HDRP 0x100010) = 24 \<and> GET_SIZE heap5 (HDRP 0x100058) = 4024
   \<and> find_fit heap5 32 = Some 0x100058"
proof -
  have p: "index_path heap5 (firstlist heap5) [0x100010, 0x100058]"
    by (simp add: get_next_def)
  have sz: "GET_SIZE heap5 (HDRP 0x100010) = 24" "GET_SIZE heap5 (HDRP 0x100058) = 4024"
    by (simp_all add: GET_SIZE_def HDRP_def)
  from find_fit_policy [OF p, of 32] obtain r where
    r: "find_fit heap5 32 = Some r" and "r \<in> set [0x100010, 0x100058] \<and> 32 < GET_SIZE heap5 (HDRP r)"
    by (auto simp: sz split: if_splits)
  then have "r = 0x100058" using sz by auto
  with r p sz show ?thesis by simp
qed

section \<open>Placement\<close>




section \<open>Coalescing\<close>

text \<open>
  Claim C7: when the physical predecessor of the block is free and its successor is
  allocated, \<^verbatim>\<open>coalesce\<close> returns the predecessor's address; the header of the predecessor
  and the footer that this header then locates hold the sum of the two sizes (with the
  allocated bit clear); no other byte of the arena changes, the head of the index is the
  same, and every index whose \<^verbatim>\<open>next\<close> fields lie apart from those two tags is the same
  list of nodes as before, so nothing is removed from or inserted into it.
\<close>

theorem coalesce_merges_into_predecessor:
  assumes "GET_ALLOC s (FTRP s (PREV_BLKP s bp)) = 0"
    and "GET_ALLOC s (HDRP (NEXT_BLKP s bp)) \<noteq> 0"
  shows "snd (coalesce s bp) = PREV_BLKP s bp
    \<and> firstlist (fst (coalesce s bp)) = firstlist s
    \<and> GET (fst (coalesce s bp)) (HDRP (PREV_BLKP s bp))
        = GET_SIZE s (HDRP bp) + GET_SIZE s (HDRP (PREV_BLKP s bp))
    \<and> GET (fst (coalesce s bp)) (FTRP (fst (coalesce s bp)) (PREV_BLKP s bp))
        = GET_SIZE s (HDRP bp) + GET_SIZE s (HDRP (PREV_BLKP s bp))
    \<and> (\<forall>a. 4 \<le> a - HDRP (PREV_BLKP s bp)
           \<longrightarrow> 4 \<le> a - FTRP (fst (coalesce s bp)) (PREV_BLKP s bp)
           \<longrightarrow> mem (fst (coalesce s bp)) a = mem s a)
    \<and> (\<forall>xs. index_path s (firstlist s) xs
           \<longrightarrow> (\<forall>x\<in>set xs.
                  4 \<le> (x + 8) - HDRP (PREV_BLKP s bp) \<and> 8 \<le> HDRP (PREV_BLKP s bp) - (x + 8)
                \<and> 4 \<le> (x + 8) - FTRP (fst (coalesce s bp)) (PREV_BLKP s bp)
                \<and> 8 \<le> FTRP (fst (coalesce s bp)) (PREV_BLKP s bp) - (x + 8))
           \<longrightarrow> index_path (fst (coalesce s bp)) (firstlist (fst (coalesce s bp))) xs)"
proof -
  define p where "p = PREV_BLKP s bp"
  define v where "v = GET_SIZE s (HDRP bp) + GET_SIZE s (HDRP p)"
  define s1 where "s1 = PUT s (HDRP p) v"
  define s2 where "s2 = PUT s1 (FTRP s1 p) v"
  have na: "(ucast (GET_ALLOC s (HDRP (NEXT_BLKP s bp))) :: addr) \<noteq> 0"
    using assms(2) by (simp add: ucast_u32_eq_0)
  have c: "coalesce s bp = (s2, p)"
    using assms(1) na
    by (simp add: coalesce_def Let_def p_def v_def s1_def s2_def PACK_def ucast_add_down)
  note t = tag_header_footer [OF s1_def s2_def]
  have f2: "FTRP s2 p = FTRP s1 p" by (rule t(2))
  have idx: "index_path s2 (firstlist s2) xs"
    if ip: "index_path s (firstlist s) xs"
      and ap: "\<forall>x\<in>set xs. 4 \<le> (x + 8) - HDRP p \<and> 8 \<le> HDRP p - (x + 8)
                \<and> 4 \<le> (x + 8) - FTRP s2 p \<and> 8 \<le> FTRP s2 p - (x + 8)" for xs
  proof -
    have "\<forall>x\<in>set xs. get_next s2 x = get_next s x"
      using ap unfolding f2
      by (auto simp: get_next_def s2_def s1_def load_PUT_other)
    from index_path_cong [OF this] ip t(4) show ?thesis by simp
  qed
  from t c idx show ?thesis
    by (simp add: p_def [symmetric] v_def)
qed

theorem coalesce_merges_into_predecessor_witness:
  "GET_ALLOC heap5m (FTRP heap5m (PREV_BLKP heap5m 0x100028)) = 0
   \<and> GET_ALLOC heap5m (HDRP (NEXT_BLKP heap5m 0x100028)) \<noteq> 0
   \<and> PREV_BLKP heap5m 0x100028 = 0x100010
   \<and> snd (coalesce heap5m 0x100028) = 0x100010
   \<and> firstlist (fst (coalesce heap5m 0x100028)) = firstlist heap5m
   \<and> GET (fst (coalesce heap5m 0x100028)) (HDRP 0x100010) = 48
   \<and> index_path heap5m (firstlist heap5m) [0x100010, 0x100058]
   \<and> index_path (fst (coalesce heap5m 0x100028)) (firstlist (fst (coalesce heap5m 0x100028)))
        [0x100010, 0x100058]"
proof -
  have a: "GET_ALLOC heap5m (FTRP heap5m (PREV_BLKP heap5m 0x100028)) = 0"
    and b: "GET_ALLOC heap5m (HDRP (NEXT_BLKP heap5m 0x100028)) \<noteq> 0"
    and p: "PREV_BLKP heap5m 0x100028 = 0x100010"
    by (simp_all add: GET_SIZE_def GET_ALLOC_def HDRP_def FTRP_def PREV_BLKP_def NEXT_BLKP_def)
  have ip: "index_path heap5m (firstlist heap5m) [0x100010, 0x100058]"
    by (simp add: get_next_def)
  note t = coalesce_merges_into_predecessor [OF a b, unfolded p]
  have h: "GET (fst (coalesce heap5m 0x100028)) (HDRP 0x100010) = 48"
    using t by (simp add: GET_SIZE_def HDRP_def)
  then have f: "FTRP (fst (coalesce heap5m 0x100028)) 0x100010 = 0x100038"
    by (simp add: FTRP_def GET_SIZE_def)
  note last = t [THEN conjunct2, THEN conjunct2, THEN conjunct2, THEN conjunct2,
      THEN conjunct2, rule_format, OF ip]
  have "index_path (fst (coalesce heap5m 0x100028)) (firstlist (fst (coalesce heap5m 0x100028)))
        [0x100010, 0x100058]"
    by (rule last) (auto simp add: f HDRP_def)
  with t a b p ip h show ?thesis by simp
qed

section \<open>Reallocation of a block that fits exactly\<close>

text \<open>
  Claim C5 fails where the block's total size equals the required total size: the guard of
  \<^verbatim>\<open>mm_realloc\<close> is \<^verbatim>\<open>curr_size > asize\<close>.  On \<open>heap2\<close> the block \<open>0x100010\<close> has 24 bytes, which is
  what a payload of 16 requires; \<^verbatim>\<open>mm_realloc(0x100010, 16)\<close> returns the same address but
  absorbs the free successor: the header changes from 25 to 4097 and the index becomes empty.
\<close>

theorem realloc_exact_fit_grows:
  "mm_malloc heap1 16 = Some (heap2, 0x100010)
   \<and> GET_SIZE heap2 (HDRP 0x100010) = 16 + DSIZE
   \<and> GET heap2 (HDRP 0x100010) = 25 \<and> firstlist heap2 = 0x100028
   \<and> mm_realloc heap2 0x100010 16
       = Returns (PUT (PUT (heap2\<lparr>firstlist := 0\<rparr>) 0x10000C 4097) 0x101008 4097, 0x100010)
   \<and> GET (PUT (PUT (heap2\<lparr>firstlist := 0\<rparr>) 0x10000C 4097) 0x101008 4097) (HDRP 0x100010)
       = 4097
   \<and> firstlist (PUT (PUT (heap2\<lparr>firstlist := 0\<rparr>) 0x10000C 4097) 0x101008 4097) = 0"
  by (simp add: mm_malloc_heap1 mm_realloc_def opdefs0 rw)

section \<open>Requests whose size wraps around\<close>

text \<open>
  \<^verbatim>\<open>mm_malloc\<close> computes \<^verbatim>\<open>asize = size + DSIZE\<close> in 32 bits.  For \<^verbatim>\<open>size = 0xFFFFFFF8\<close> the sum
  is 0; \<^verbatim>\<open>find_fit(0)\<close> then returns the smallest indexed block, and \<^verbatim>\<open>place(bp, 0)\<close> writes
  a zero-size tag, which makes \<^verbatim>\<open>listRemove\<close> take its early return, restores the header as
  free and inserts the block a second time.

  Claim C1 fails there: after \<^verbatim>\<open>mm_init\<close> on the fresh arena, \<^verbatim>\<open>mm_malloc(0xFFFFFFF8)\<close> returns
  the non-null address \<open>0x100010\<close> of a block whose total size is 4096, far below the
  request; the block is still marked free and is the head of the index.
\<close>

theorem malloc_size_wraps:
  "mm_init arena0 = (heap1, 0)
   \<and> mm_malloc heap1 0xFFFFFFF8 = Some (heap1w, 0x100010)
   \<and> GET_SIZE heap1w (HDRP 0x100010) = 4096
   \<and> unat (GET_SIZE heap1w (HDRP 0x100010)) < unat (0xFFFFFFF8 :: u32)
   \<and> GET_ALLOC heap1w (HDRP 0x100010) = 0
   \<and> firstlist heap1w = 0x100010"
  by (simp add: mm_init_arena0 mm_malloc_heap1_wrap GET_SIZE_def GET_ALLOC_def HDRP_def)

text \<open>
  Claim C3 fails after the next call: \<^verbatim>\<open>mm_malloc(4088)\<close> finds the same block as an exact
  fit, marks it allocated, and \<^verbatim>\<open>listRemove\<close>, which sees a node linked to itself, leaves
  \<^verbatim>\<open>firstlist\<close> pointing at it.  Between the public operations the block \<open>0x100010\<close> is then
  allocated and is the one member of the index.
\<close>

theorem allocated_block_stays_indexed:
  "mm_init arena0 = (heap1, 0)
   \<and> mm_malloc heap1 0xFFFFFFF8 = Some (heap1w, 0x100010)
   \<and> mm_malloc heap1w 4088 = Some (heap1x, 0x100010)
   \<and> index_path heap1x (firstlist heap1x) [0x100010]
   \<and> GET_ALLOC heap1x (HDRP 0x100010) = 1"
  by (simp add: mm_init_arena0 mm_malloc_heap1_wrap mm_malloc_heap1w
      GET_ALLOC_def HDRP_def get_next_def)

text \<open>
  Claim C2 fails after a free that follows such a request.  Three blocks of 24 bytes are
  allocated and the middle one, \<open>0x100028\<close>, is freed; \<^verbatim>\<open>mm_malloc(0xFFFFFFF8)\<close> returns that
  address again and, through \<^verbatim>\<open>place(bp, 0)\<close>, leaves a zero size in the footer before it.
  \<^verbatim>\<open>mm_free(0x100028)\<close> then takes the block for its own free predecessor and doubles its
  size to 48.  Walking the headers of \<open>heap8\<close> from \<^verbatim>\<open>heap_listp\<close> gives the blocks
  \<open>0x100010\<close>, \<open>0x100028\<close>, \<open>0x100058\<close> and the epilogue \<open>0x101010\<close>; the second and the third
  are adjacent and both free.
\<close>

theorem free_leaves_adjacent_free_blocks:
  "mm_init arena0 = (heap1, 0)
   \<and> mm_malloc heap1 16 = Some (heap2, 0x100010)
   \<and> mm_malloc heap2 16 = Some (heap3, 0x100028)
   \<and> mm_malloc heap3 16 = Some (heap4, 0x100040)
   \<and> mm_free heap4 0x100028 = heap6
   \<and> mm_malloc heap6 0xFFFFFFF8 = Some (heap7, 0x100028)
   \<and> mm_free heap7 0x100028 = heap8
   \<and> NEXT_BLKP heap8 (heap_listp heap8) = 0x100010
   \<and> NEXT_BLKP heap8 0x100010 = 0x100028
   \<and> NEXT_BLKP heap8 0x100028 = 0x100058
   \<and> NEXT_BLKP heap8 0x100058 = 0x101010
   \<and> GET heap8 (HDRP 0x101010) = 1
   \<and> GET_ALLOC heap8 (HDRP 0x100028) = 0
   \<and> GET_ALLOC heap8 (HDRP 0x100058) = 0"
  by (simp add: mm_init_arena0 mm_malloc_heap1 mm_malloc_heap2 mm_malloc_heap3
      mm_free_heap4_mid mm_malloc_heap6_wrap mm_free_heap7
      NEXT_BLKP_def GET_SIZE_def GET_ALLOC_def HDRP_def)

text \<open>
  Claim C8 fails when the relocation's own \<^verbatim>\<open>mm_malloc\<close> wraps around.  On \<open>heap2u\<close> the block
  \<open>0x100010\<close> has 24 bytes and its payload begins with the eight bytes of \<open>0x100018\<close>.
  \<^verbatim>\<open>mm_realloc(0x100010, 0xFFFFFFF7)\<close> takes the relocation path; its \<^verbatim>\<open>mm_malloc\<close> returns
  the free block \<open>0x100028\<close>, still indexed; 24 bytes are copied; \<^verbatim>\<open>mm_free\<close> of the old block
  then rewrites the links of the index, which lie in the new payload.  The call returns
  \<open>0x100028\<close>, where the first eight bytes are now those of \<open>0x100010\<close>.
\<close>

theorem realloc_relocation_loses_data:
  "mm_malloc heap1 16 = Some (heap2, 0x100010)
   \<and> heap2u = store_ptr heap2 0x100010 0x100018
   \<and> GET_SIZE heap2u (HDRP 0x100010) = 24
   \<and> load_ptr heap2u 0x100010 = 0x100018
   \<and> mm_realloc heap2u 0x100010 0xFFFFFFF7 = Returns (heap2z, 0x100028)
   \<and> load_ptr heap2z 0x100028 = 0x100010"
  by (simp add: mm_malloc_heap1 mm_realloc_heap2u heap2z_data GET_SIZE_def HDRP_def)
    (simp add: heap2u_def)

end
